theory Spec2Isabelle
  imports Main "HOL-Library.Word"
begin

section \<open>The async worker of src/async/async_worker.c\<close>

text \<open>
  The file holds four static functions and the worker thread's entry point:
  \<^item> \<open>__async_flush_wait\<close> (lines 15-34), the wait of a flush participant;
  \<^item> \<open>__async_worker_cursor\<close> (lines 43-83), the worker's cursor cache;
  \<^item> \<open>__async_worker_execop\<close> (lines 89-128), one op run through a cursor;
  \<^item> \<open>__async_worker_op\<close> (lines 134-175), the op inside a transaction;
  \<^item> \<open>__wt_async_worker\<close> (lines 181-302), the worker loop.

  Everything they call lives outside the file: transactions, cursors, the allocator,
  the condition variable, the user's callback. These calls are answered by an
  \<open>engine\<close>, a parameter of every function below: it maps each request and its own
  (opaque) state to a return code and a new state. The model records every request
  and its return code in a trace, oldest first, so that what the code asked of the
  engine, and in which order, can be stated.
\<close>

subsection \<open>Data\<close>

type_synonym wt_item = string \<comment> \<open>\<open>WT_ITEM\<close>: a buffer of raw bytes\<close>

type_synonym cursor_ref = nat \<comment> \<open>\<open>WT_CURSOR *\<close>: the address of an engine cursor\<close>

text \<open>The cursor flags the file names, and any other bit of the flag word.\<close>

datatype curflag =
    WT_CURSTD_KEY_EXT
  | WT_CURSTD_KEY_INT
  | WT_CURSTD_VALUE_EXT
  | WT_CURSTD_VALUE_INT
  | WT_CURSTD_other nat

record wt_cursor =
  c_uri :: string \<comment> \<open>the uri the cursor was opened on\<close>
  c_config :: string \<comment> \<open>the configuration it was opened with\<close>
  c_key :: wt_item
  c_value :: wt_item
  c_flags :: "curflag set"

record wt_async_format =
  f_uri :: string
  f_config :: string
  f_uri_hash :: "64 word"
  f_cfg_hash :: "64 word"

text \<open>
  \<open>op->optype\<close> is a C enum read by a \<open>switch\<close> with a \<open>default\<close> branch:
  the four kinds the switch names, and every other value.
\<close>

datatype wt_async_optype =
    WT_AOP_INSERT
  | WT_AOP_UPDATE
  | WT_AOP_REMOVE
  | WT_AOP_SEARCH
  | WT_AOP_unknown int

datatype wt_async_state = WT_ASYNCOP_FREE | WT_ASYNCOP_ENQUEUED | WT_ASYNCOP_WORKING

text \<open>
  \<open>op->cb\<close> may be \<open>NULL\<close>, and so may \<open>op->cb->notify\<close>; a callback
  function is named by a number, and the engine answers for it.
\<close>

record wt_async_callback =
  cb_notify :: "nat option"

record wt_async_op_impl =
  op_c :: wt_cursor \<comment> \<open>\<open>asyncop->c\<close>, the cursor embedded in the op: key, value, flags\<close>
  op_cb :: "wt_async_callback option"
  op_format :: wt_async_format \<comment> \<open>\<open>op->format\<close>, asserted non-\<open>NULL\<close> at line 54\<close>
  op_optype :: wt_async_optype
  op_state :: wt_async_state

record wt_async_cursor =
  ac_cfg_hash :: "64 word"
  ac_uri_hash :: "64 word"
  ac_c :: cursor_ref

record wt_async_worker_state =
  cursorqh :: "wt_async_cursor list" \<comment> \<open>the \<open>STAILQ\<close>, head first\<close>
  num_cursors :: "32 word"

subsection \<open>The engine\<close>

datatype cursor_method = Insert | Remove | Search | Reset | Close

datatype request =
    Txn_begin
  | Txn_commit
  | Txn_rollback
  | Calloc
  | Free
  | Open_cursor string string
  | Cursor cursor_method cursor_ref
  | Notify nat wt_async_op_impl int int
  | Cond_wait
  | Cond_signal
  | Err_report int

text \<open>
  The engine answers a request of session \<open>sid\<close> with a return code; a cursor
  method also sees the cursor and returns it changed. The error codes the file
  compares with come from headers outside the file and are fields of the engine.
\<close>

record 'e engine =
  respond :: "nat \<Rightarrow> request \<Rightarrow> 'e \<Rightarrow> int \<times> 'e"
  cursor_respond :: "nat \<Rightarrow> cursor_method \<Rightarrow> wt_cursor \<Rightarrow> 'e \<Rightarrow> int \<times> wt_cursor \<times> 'e"
  WT_NOTFOUND :: int
  WT_DUPLICATE_KEY :: int
  WT_PANIC :: int
  EINVAL :: int
  ETIMEDOUT :: int

record 'e world =
  eng :: 'e \<comment> \<open>the engine's own state\<close>
  cursors :: "cursor_ref \<Rightarrow> wt_cursor" \<comment> \<open>the cursor objects, by address\<close>
  ncursors :: nat \<comment> \<open>the next fresh cursor address\<close>
  trace :: "(nat \<times> request \<times> int) list" \<comment> \<open>the calls made: session, request, return code\<close>

definition ext_call :: "'e engine \<Rightarrow> nat \<Rightarrow> request \<Rightarrow> 'e world \<Rightarrow> int \<times> 'e world" where
  "ext_call E sid rq s =
     (case respond E sid rq (eng s) of
        (r, e') \<Rightarrow> (r, s\<lparr>eng := e', trace := trace s @ [(sid, rq, r)]\<rparr>))"

definition cursor_call ::
  "'e engine \<Rightarrow> nat \<Rightarrow> cursor_method \<Rightarrow> cursor_ref \<Rightarrow> 'e world \<Rightarrow> int \<times> 'e world" where
  "cursor_call E sid m c s =
     (case cursor_respond E sid m (cursors s c) (eng s) of
        (r, cur', e') \<Rightarrow>
          (r, s\<lparr>eng := e', cursors := (cursors s)(c := cur'),
                trace := trace s @ [(sid, Cursor m c, r)]\<rparr>))"

text \<open>
  Modelled from the spec: \<open>open_cursor(session, uri, config) \<rightarrow> cursor\<close>, which may
  fail. The engine's \<open>open_cursor\<close> is not in the file; on success the new cursor
  stands at a fresh address, opened on the uri and configuration asked for.
\<close>

definition open_cursor ::
  "'e engine \<Rightarrow> nat \<Rightarrow> string \<Rightarrow> string \<Rightarrow> 'e world \<Rightarrow> int \<times> cursor_ref \<times> 'e world" where
  "open_cursor E sid uri cfg s =
     (case ext_call E sid (Open_cursor uri cfg) s of
        (r, s1) \<Rightarrow>
          if r \<noteq> 0 then (r, ncursors s1, s1)
          else (0, ncursors s1,
                s1\<lparr>cursors := (cursors s1)(ncursors s1 :=
                       \<lparr>c_uri = uri, c_config = cfg, c_key = [], c_value = [], c_flags = {}\<rparr>),
                    ncursors := Suc (ncursors s1)\<rparr>))"

text \<open>
  Modelled from the spec: the raw key and value accessors of a cursor
  (\<open>__wt_cursor_set_raw_key\<close>, \<open>__wt_cursor_set_raw_value\<close>,
  \<open>__wt_cursor_get_raw_value\<close>) are not in the file. Binding a key or a value stores
  the buffer in the cursor and marks it as set by the application; reading the raw
  value returns the cursor's value buffer.
\<close>

definition cursor_set_raw_key :: "wt_cursor \<Rightarrow> wt_item \<Rightarrow> wt_cursor" where
  "cursor_set_raw_key cur k =
     cur\<lparr>c_key := k,
         c_flags := insert WT_CURSTD_KEY_EXT (c_flags cur - {WT_CURSTD_KEY_EXT, WT_CURSTD_KEY_INT})\<rparr>"

definition cursor_set_raw_value :: "wt_cursor \<Rightarrow> wt_item \<Rightarrow> wt_cursor" where
  "cursor_set_raw_value cur v =
     cur\<lparr>c_value := v,
         c_flags :=
           insert WT_CURSTD_VALUE_EXT (c_flags cur - {WT_CURSTD_VALUE_EXT, WT_CURSTD_VALUE_INT})\<rparr>"

definition cursor_get_raw_value :: "wt_cursor \<Rightarrow> wt_item" where
  "cursor_get_raw_value cur = c_value cur"

text \<open>
  Modelled from the spec: the macro \<open>WT_TRET\<close> is not in the file. It records the
  return code of a later call unless an earlier error is already held ("commit and
  rollback errors are recorded").
\<close>

definition wt_tret :: "'e engine \<Rightarrow> int \<Rightarrow> int \<Rightarrow> int" where
  "wt_tret E ret r =
     (if r \<noteq> 0 \<and> (r = WT_PANIC E \<or> ret = 0 \<or> ret = WT_DUPLICATE_KEY E \<or> ret = WT_NOTFOUND E)
      then r else ret)"

subsection \<open>\<open>__async_worker_cursor\<close>\<close>

text \<open>
  Lines 55-65, the \<open>STAILQ_FOREACH\<close> over the cache from its head: the first entry
  whose two hashes equal the format's gives its cursor.
\<close>

fun cursorq_find :: "wt_async_format \<Rightarrow> wt_async_cursor list \<Rightarrow> cursor_ref option" where
  "cursorq_find f [] = None"
| "cursorq_find f (ac # q) =
     (if f_cfg_hash f = ac_cfg_hash ac \<and> f_uri_hash f = ac_uri_hash ac
      then Some (ac_c ac)
      else cursorq_find f q)"

text \<open>
  The result is \<open>Inr c\<close> for \<open>return (0)\<close> with \<open>*cursorp = c\<close>, and \<open>Inl ret\<close>
  for the two error returns (\<open>WT_RET\<close> at line 70, \<open>err:\<close> at line 81), where
  \<open>*cursorp\<close> stays \<open>NULL\<close>.
\<close>

definition async_worker_cursor ::
  "'e engine \<Rightarrow> nat \<Rightarrow> wt_async_op_impl \<Rightarrow> wt_async_worker_state \<Rightarrow> 'e world
     \<Rightarrow> (int + cursor_ref) \<times> wt_async_worker_state \<times> 'e world" where
  "async_worker_cursor E sid op worker s =
     (case cursorq_find (op_format op) (cursorqh worker) of
        Some c \<Rightarrow> (Inr c, worker, s)
      | None \<Rightarrow>
          (case ext_call E sid Calloc s of
             (r1, s1) \<Rightarrow>
               if r1 \<noteq> 0 then (Inl r1, worker, s1)
               else
                 (case open_cursor E sid (f_uri (op_format op)) (f_config (op_format op)) s1 of
                    (r2, c, s2) \<Rightarrow>
                      if r2 \<noteq> 0 then (Inl r2, worker, snd (ext_call E sid Free s2))
                      else
                        (Inr c,
                         worker\<lparr>cursorqh :=
                                  \<lparr>ac_cfg_hash = f_cfg_hash (op_format op),
                                   ac_uri_hash = f_uri_hash (op_format op),
                                   ac_c = c\<rparr> # cursorqh worker,
                                num_cursors := num_cursors worker + 1\<rparr>,
                         s2))))"

subsection \<open>\<open>__async_worker_execop\<close>\<close>

text \<open>Lines 102-104: the op's key, and for all but search and remove its value, go to the cursor.\<close>

definition execop_bind :: "wt_async_op_impl \<Rightarrow> wt_cursor \<Rightarrow> wt_cursor" where
  "execop_bind op cur =
     (let cur1 = cursor_set_raw_key cur (c_key (op_c op))
      in if op_optype op \<noteq> WT_AOP_SEARCH \<and> op_optype op \<noteq> WT_AOP_REMOVE
         then cursor_set_raw_value cur1 (c_value (op_c op))
         else cur1)"

text \<open>
  Lines 105-127. \<open>WT_ERR\<close> leaves through \<open>err:\<close> with the call's return code when
  that is not 0; \<open>WT_ERR_MSG\<close> reports the message and leaves with \<open>EINVAL\<close>.
\<close>

definition async_worker_execop ::
  "'e engine \<Rightarrow> nat \<Rightarrow> wt_async_op_impl \<Rightarrow> cursor_ref \<Rightarrow> 'e world
     \<Rightarrow> int \<times> wt_async_op_impl \<times> 'e world" where
  "async_worker_execop E sid op cursor s =
     (let s1 = s\<lparr>cursors := (cursors s)(cursor := execop_bind op (cursors s cursor))\<rparr>
      in case op_optype op of
           WT_AOP_INSERT \<Rightarrow> (case cursor_call E sid Insert cursor s1 of (r, s2) \<Rightarrow> (r, op, s2))
         | WT_AOP_UPDATE \<Rightarrow> (case cursor_call E sid Insert cursor s1 of (r, s2) \<Rightarrow> (r, op, s2))
         | WT_AOP_REMOVE \<Rightarrow> (case cursor_call E sid Remove cursor s1 of (r, s2) \<Rightarrow> (r, op, s2))
         | WT_AOP_SEARCH \<Rightarrow>
             (case cursor_call E sid Search cursor s1 of
                (r, s2) \<Rightarrow>
                  if r \<noteq> 0 then (r, op, s2)
                  else (0,
                        op\<lparr>op_c := cursor_set_raw_value (op_c op)
                                      (cursor_get_raw_value (cursors s2 cursor))\<rparr>,
                        s2))
         | WT_AOP_unknown k \<Rightarrow>
             (EINVAL E, op, snd (ext_call E sid (Err_report (EINVAL E)) s1)))"

subsection \<open>\<open>__async_worker_op\<close>\<close>

text \<open>Lines 155-156: the callback, when the op has one; \<open>cb_ret\<close> stays 0 otherwise.\<close>

definition async_notify ::
  "'e engine \<Rightarrow> nat \<Rightarrow> wt_async_op_impl \<Rightarrow> int \<Rightarrow> 'e world \<Rightarrow> int \<times> 'e world" where
  "async_notify E sid op ret s =
     (case op_cb op of
        None \<Rightarrow> (0, s)
      | Some cb \<Rightarrow>
          (case cb_notify cb of
             None \<Rightarrow> (0, s)
           | Some f \<Rightarrow> ext_call E sid (Notify f op ret 0) s))"

text \<open>Lines 162-165: commit or roll back; \<open>WT_TRET\<close> keeps the call's return code.\<close>

definition async_txn_resolve :: "'e engine \<Rightarrow> nat \<Rightarrow> int \<Rightarrow> int \<Rightarrow> 'e world \<Rightarrow> int \<times> 'e world" where
  "async_txn_resolve E sid ret cb_ret s =
     (case (if (ret = 0 \<or> ret = WT_NOTFOUND E) \<and> cb_ret = 0
            then ext_call E sid Txn_commit s
            else ext_call E sid Txn_rollback s) of
        (r, s1) \<Rightarrow> (wt_tret E ret r, s1))"

text \<open>Line 172: \<open>F_CLR(&asyncop->c, WT_CURSTD_KEY_SET | WT_CURSTD_VALUE_SET)\<close>.\<close>

definition clear_key_value_set :: "wt_cursor \<Rightarrow> wt_cursor" where
  "clear_key_value_set cur =
     cur\<lparr>c_flags := c_flags cur -
            {WT_CURSTD_KEY_EXT, WT_CURSTD_KEY_INT, WT_CURSTD_VALUE_EXT, WT_CURSTD_VALUE_INT}\<rparr>"

text \<open>
  The handler returns its return code, the op and the worker's cache as it leaves
  them, and the world. The two \<open>WT_RET\<close> (lines 148 and 150) return at once.
\<close>

definition async_worker_op ::
  "'e engine \<Rightarrow> nat \<Rightarrow> wt_async_op_impl \<Rightarrow> wt_async_worker_state \<Rightarrow> 'e world
     \<Rightarrow> int \<times> wt_async_op_impl \<times> wt_async_worker_state \<times> 'e world" where
  "async_worker_op E sid op worker s =
     (case ext_call E sid Txn_begin s of
        (r0, s0) \<Rightarrow>
          if r0 \<noteq> 0 then (r0, op, worker, s0)
          else
            (case async_worker_cursor E sid op worker s0 of
               (Inl r1, worker1, s1) \<Rightarrow> (r1, op, worker1, s1)
             | (Inr cursor, worker1, s1) \<Rightarrow>
                 (case async_worker_execop E sid op cursor s1 of
                    (ret, op1, s2) \<Rightarrow>
                      (case async_notify E sid op1 ret s2 of
                         (cb_ret, s3) \<Rightarrow>
                           (case async_txn_resolve E sid ret cb_ret s3 of
                              (ret1, s4) \<Rightarrow>
                                (0,
                                 op1\<lparr>op_state := WT_ASYNCOP_FREE,
                                     op_c := clear_key_value_set (op_c op1)\<rparr>,
                                 worker1,
                                 snd (cursor_call E sid Reset cursor s4)))))))"

subsection \<open>\<open>__wt_async_worker\<close>\<close>

text \<open>
  An op is known by its address: the flush op embedded in the async structure
  (\<open>&async->flush_op\<close>), or any other op.
\<close>

datatype op_ref = Flush_op | Op nat

datatype flush_flag = WT_ASYNC_FLUSH_COMPLETE | WT_ASYNC_FLUSH_IN_PROGRESS | WT_ASYNC_FLUSHING

text \<open>
  The workers are threads that share the connection. Everything a worker does to the
  queue, the flush flags and the flush count happens between \<open>__wt_spin_lock\<close> and
  \<open>__wt_spin_unlock\<close> of \<open>opsq_lock\<close>, so a step of a worker is what it does
  from one point where it stands without the lock to the next. These points are:
\<close>

datatype wait_site =
    From_arrival \<comment> \<open>\<open>__async_flush_wait\<close> called at line 232\<close>
  | From_pop \<comment> \<open>\<open>__async_flush_wait\<close> called at line 264\<close>

datatype pc =
    Loop_top \<comment> \<open>line 200, before the loop test and the lock\<close>
  | In_flush_wait wait_site \<comment> \<open>line 29, in \<open>__wt_cond_wait\<close>, lock released at line 26\<close>
  | At_signal \<comment> \<open>line 223, before \<open>__wt_cond_signal\<close>, lock released at line 221\<close>
  | Unlocked_with op_ref \<comment> \<open>line 271, lock released at line 269, \<open>op\<close> dequeued\<close>
  | Exited \<comment> \<open>line 301\<close>

record thread =
  t_pc :: pc
  t_worker :: wt_async_worker_state \<comment> \<open>the local \<open>worker\<close>\<close>

record 'e conn =
  server_run :: bool \<comment> \<open>\<open>F_ISSET(conn, WT_CONN_SERVER_RUN)\<close>\<close>
  async_workers :: "32 word" \<comment> \<open>\<open>conn->async_workers\<close>\<close>
  opqh :: "op_ref list" \<comment> \<open>\<open>async->opqh\<close>, head first\<close>
  cur_queue :: "32 word"
  opsq_flush :: "flush_flag set"
  flush_count :: "32 word"
  ops :: "op_ref \<Rightarrow> wt_async_op_impl" \<comment> \<open>the op structures, by address\<close>
  threads :: "nat \<Rightarrow> thread" \<comment> \<open>worker \<open>w\<close> runs on session \<open>w\<close>\<close>
  world :: "'e world"

definition goto :: "nat \<Rightarrow> pc \<Rightarrow> 'e conn \<Rightarrow> 'e conn" where
  "goto w p s = s\<lparr>threads := (threads s)(w := (threads s w)\<lparr>t_pc := p\<rparr>)\<rparr>"

text \<open>
  Lines 294-300: every cached cursor is closed and its entry freed. The return codes
  go to \<open>ret\<close> through \<open>WT_TRET\<close>, and \<open>ret\<close> is not read again.
\<close>

fun close_cursors :: "'e engine \<Rightarrow> nat \<Rightarrow> wt_async_cursor list \<Rightarrow> 'e world \<Rightarrow> 'e world" where
  "close_cursors E sid [] s = s"
| "close_cursors E sid (ac # q) s =
     close_cursors E sid q (snd (ext_call E sid Free (snd (cursor_call E sid Close (ac_c ac) s))))"

text \<open>
  Lines 285-301, entered with \<open>Some ret\<close> through \<open>err:\<close> and with \<open>None\<close> when
  the loop test fails. At every \<open>goto err\<close> of the loop \<open>locked\<close> is 0, so line
  288 does not run.
\<close>

definition worker_exit :: "'e engine \<Rightarrow> nat \<Rightarrow> int option \<Rightarrow> 'e conn \<Rightarrow> 'e conn" where
  "worker_exit E w err s =
     (let wd = (case err of
                  None \<Rightarrow> world s
                | Some ret \<Rightarrow> snd (ext_call E w (Err_report ret) (world s)));
          th = threads s w
      in s\<lparr>world := close_cursors E w (cursorqh (t_worker th)) wd,
           threads := (threads s)(w := th\<lparr>t_pc := Exited,
                                          t_worker := (t_worker th)\<lparr>cursorqh := []\<rparr>\<rparr>)\<rparr>)"

text \<open>
  Lines 240-270, with the lock held. An empty queue sends the worker to
  \<open>wait_for_work\<close> and round the loop. Otherwise the head is removed; the flush op
  arms the flush and enters \<open>__async_flush_wait\<close>, whose loop test holds, so the lock
  is released inside the wait; any other op leaves with the lock released at line 269.
  The assertions of lines 251, 253 and 256 are empty in a production build.
\<close>

definition async_dequeue :: "nat \<Rightarrow> 'e conn \<Rightarrow> 'e conn" where
  "async_dequeue w s =
     (case opqh s of
        [] \<Rightarrow> goto w Loop_top s
      | op # q \<Rightarrow>
          (let s1 = s\<lparr>opqh := q, cur_queue := cur_queue s - 1,
                      ops := (ops s)(op := (ops s op)\<lparr>op_state := WT_ASYNCOP_WORKING\<rparr>)\<rparr>
           in if op = Flush_op
              then goto w (In_flush_wait From_pop)
                     (s1\<lparr>opsq_flush := insert WT_ASYNC_FLUSHING (opsq_flush s1),
                         flush_count := 1\<rparr>)
              else goto w (Unlocked_with op) s1))"

text \<open>
  Lines 200-235 from the top of the loop: leave when the server no longer runs; under
  the lock, with \<open>FLUSHING\<close> set, count this worker and either finish the flush
  (and release the lock to signal) or wait; without it, dequeue.
\<close>

definition worker_loop_top :: "'e engine \<Rightarrow> nat \<Rightarrow> 'e conn \<Rightarrow> 'e conn" where
  "worker_loop_top E w s =
     (if \<not> server_run s then worker_exit E w None s
      else if WT_ASYNC_FLUSHING \<in> opsq_flush s then
        (let s1 = s\<lparr>flush_count := flush_count s + 1\<rparr>
         in if flush_count s1 = async_workers s1
            then goto w At_signal
                   (s1\<lparr>opsq_flush :=
                         insert WT_ASYNC_FLUSH_COMPLETE (opsq_flush s1) - {WT_ASYNC_FLUSHING}\<rparr>)
            else goto w (In_flush_wait From_arrival) s1)
      else async_dequeue w s)"

text \<open>Lines 223-226, then on to the dequeue with the lock taken again.\<close>

definition worker_signal :: "'e engine \<Rightarrow> nat \<Rightarrow> 'e conn \<Rightarrow> 'e conn" where
  "worker_signal E w s =
     (case ext_call E w Cond_signal (world s) of
        (r, wd) \<Rightarrow>
          if r \<noteq> 0 then worker_exit E w (Some r) (s\<lparr>world := wd\<rparr>)
          else async_dequeue w (s\<lparr>world := wd\<rparr>))"

text \<open>
  Modelled from the spec: the macro \<open>WT_ERR_TIMEDOUT_OK\<close> is not in the file. The
  wait has a bounded timeout and a wake by timeout is retried: only a return code
  that is neither 0 nor \<open>ETIMEDOUT\<close> is an error.
\<close>

definition wait_failed :: "'e engine \<Rightarrow> int \<Rightarrow> bool" where
  "wait_failed E r \<longleftrightarrow> r \<noteq> 0 \<and> r \<noteq> ETIMEDOUT E"

text \<open>
  \<open>__async_flush_wait\<close>, lines 25-33, taken up where the worker waits: the wait
  returns, the lock is taken, and the loop test is made again. With \<open>FLUSHING\<close>
  still set the worker releases the lock and waits again; otherwise the function
  returns to its caller, which dequeues (line 240) or, having popped the flush op,
  releases the lock (line 269).
\<close>

definition async_flush_wait :: "'e engine \<Rightarrow> nat \<Rightarrow> wait_site \<Rightarrow> 'e conn \<Rightarrow> 'e conn" where
  "async_flush_wait E w site s =
     (case ext_call E w Cond_wait (world s) of
        (r, wd) \<Rightarrow>
          if wait_failed E r then worker_exit E w (Some r) (s\<lparr>world := wd\<rparr>)
          else if WT_ASYNC_FLUSHING \<in> opsq_flush s then s\<lparr>world := wd\<rparr>
          else
            (case site of
               From_arrival \<Rightarrow> async_dequeue w (s\<lparr>world := wd\<rparr>)
             | From_pop \<Rightarrow> goto w (Unlocked_with Flush_op) (s\<lparr>world := wd\<rparr>)))"

text \<open>
  Lines 271-282: any op but the flush op goes to the handler, whose return value is
  cast to void; then \<open>wait_for_work\<close> yields and the loop starts again.
\<close>

definition worker_unlocked :: "'e engine \<Rightarrow> nat \<Rightarrow> op_ref \<Rightarrow> 'e conn \<Rightarrow> 'e conn" where
  "worker_unlocked E w op s =
     goto w Loop_top
       (if op \<noteq> Flush_op then
          (case async_worker_op E w (ops s op) (t_worker (threads s w)) (world s) of
             (r, op', worker', wd) \<Rightarrow>
               s\<lparr>ops := (ops s)(op := op'),
                 threads := (threads s)(w := (threads s w)\<lparr>t_worker := worker'\<rparr>),
                 world := wd\<rparr>)
        else s)"

text \<open>One step of worker \<open>w\<close>.\<close>

definition wt_async_worker :: "'e engine \<Rightarrow> nat \<Rightarrow> 'e conn \<Rightarrow> 'e conn" where
  "wt_async_worker E w s =
     (case t_pc (threads s w) of
        Loop_top \<Rightarrow> worker_loop_top E w s
      | In_flush_wait site \<Rightarrow> async_flush_wait E w site s
      | At_signal \<Rightarrow> worker_signal E w s
      | Unlocked_with op \<Rightarrow> worker_unlocked E w op s
      | Exited \<Rightarrow> s)"

text \<open>
  A run of the workers under a schedule, the list of the workers that step in turn.
  The connection has \<open>async_workers\<close> workers, numbered from 0; an entry of the
  schedule that names no worker is passed over.
\<close>

fun run :: "'e engine \<Rightarrow> nat list \<Rightarrow> 'e conn \<Rightarrow> 'e conn" where
  "run E [] s = s"
| "run E (w # sched) s =
     run E sched (if w < unat (async_workers s) then wt_async_worker E w s else s)"

text \<open>Lines 197-199: a worker starts at the top of the loop with an empty cache.\<close>

definition new_thread :: thread where
  "new_thread = \<lparr>t_pc = Loop_top, t_worker = \<lparr>cursorqh = [], num_cursors = 0\<rparr>\<rparr>"

subsection \<open>Observing a run\<close>

text \<open>The commits and rollbacks among the calls of a trace, in order.\<close>

definition txn_resolutions :: "(nat \<times> request \<times> int) list \<Rightarrow> request list" where
  "txn_resolutions tr =
     filter (\<lambda>rq. rq = Txn_commit \<or> rq = Txn_rollback) (map (\<lambda>e. fst (snd e)) tr)"

text \<open>The calls to the engine's \<open>open_cursor\<close> in a trace.\<close>

fun is_open_cursor :: "request \<Rightarrow> bool" where
  "is_open_cursor (Open_cursor uri cfg) = True"
| "is_open_cursor rq = False"

definition cursor_opens :: "(nat \<times> request \<times> int) list \<Rightarrow> nat" where
  "cursor_opens tr = length (filter is_open_cursor (map (\<lambda>e. fst (snd e)) tr))"

text \<open>
  No flush is under way: \<open>FLUSHING\<close> is clear, every worker stands at the top of
  its loop, and the queue holds the flush op at most once (it is one structure, linked
  into the queue through its one link field).
\<close>

definition quiescent :: "'e conn \<Rightarrow> bool" where
  "quiescent s \<longleftrightarrow>
     WT_ASYNC_FLUSHING \<notin> opsq_flush s \<and>
     (\<forall>w < unat (async_workers s). t_pc (threads s w) = Loop_top) \<and>
     count_list (opqh s) Flush_op \<le> 1"

text \<open>
  No cache entry that carries the two hashes of the format \<open>f\<close> holds a cursor
  opened on another uri or config: no format that collides with \<open>f\<close> was cached.
\<close>

definition no_collision :: "wt_async_worker_state \<Rightarrow> 'e world \<Rightarrow> wt_async_format \<Rightarrow> bool" where
  "no_collision worker s f \<longleftrightarrow>
     (\<forall>ac \<in> set (cursorqh worker).
        f_cfg_hash f = ac_cfg_hash ac \<and> f_uri_hash f = ac_uri_hash ac \<longrightarrow>
          c_uri (cursors s (ac_c ac)) = f_uri f \<and> c_config (cursors s (ac_c ac)) = f_config f)"

text \<open>Every cached cursor stands at an address already given out.\<close>

definition cache_fresh :: "wt_async_worker_state \<Rightarrow> 'e world \<Rightarrow> bool" where
  "cache_fresh worker s \<longleftrightarrow> (\<forall>ac \<in> set (cursorqh worker). ac_c ac < ncursors s)"

subsection \<open>The producers\<close>

text \<open>
  Modelled from the spec: the producers are not in the file. To enqueue an op a
  producer, under the queue lock, sets its state to \<open>ENQUEUED\<close>, appends it to the
  queue and increments \<open>cur_queue\<close>.
\<close>

definition producer_enqueue :: "op_ref \<Rightarrow> 'e conn \<Rightarrow> 'e conn" where
  "producer_enqueue op s =
     s\<lparr>ops := (ops s)(op := (ops s op)\<lparr>op_state := WT_ASYNCOP_ENQUEUED\<rparr>),
       opqh := opqh s @ [op],
       cur_queue := cur_queue s + 1\<rparr>"

text \<open>
  Modelled from the spec: a flush sets the flush flags to \<open>IN_PROGRESS\<close> and
  enqueues the flush op as any other op; a second flush waits until the flags of
  the first are cleared.
\<close>

definition flush_start :: "'e conn \<Rightarrow> 'e conn" where
  "flush_start s =
     (if opsq_flush s = {}
      then producer_enqueue Flush_op (s\<lparr>opsq_flush := {WT_ASYNC_FLUSH_IN_PROGRESS}\<rparr>)
      else s)"

text \<open>
  Modelled from the spec: the initiator of a flush, once it observes \<open>COMPLETE\<close>
  (on a signal or on a wake by timeout), clears the flush flags and the count and
  returns.
\<close>

definition flush_return :: "'e conn \<Rightarrow> 'e conn" where
  "flush_return s =
     (if WT_ASYNC_FLUSH_COMPLETE \<in> opsq_flush s
      then s\<lparr>opsq_flush := {}, flush_count := 0\<rparr>
      else s)"

subsection \<open>A small engine to run the code on\<close>

text \<open>
  One table, a map from keys to values. Opening a cursor fails (with 2) on the uri
  \<open>table:missing\<close> only; callback number \<open>f\<close> returns \<open>f\<close>; search and remove
  return \<open>WT_NOTFOUND\<close> on an absent key; every other call returns 0.
\<close>

definition table_engine :: "(string \<rightharpoonup> string) engine" where
  "table_engine =
     \<lparr>respond = (\<lambda>sid rq t.
         case rq of
           Open_cursor uri cfg \<Rightarrow> (if uri = ''table:missing'' then 2 else 0, t)
         | Notify f op ret fl \<Rightarrow> (int f, t)
         | _ \<Rightarrow> (0, t)),
      cursor_respond = (\<lambda>sid m cur t.
         case m of
           Insert \<Rightarrow> (0, cur, t(c_key cur \<mapsto> c_value cur))
         | Remove \<Rightarrow>
             (case t (c_key cur) of
                None \<Rightarrow> (- 31803, cur, t)
              | Some v \<Rightarrow> (0, cur, t(c_key cur := None)))
         | Search \<Rightarrow>
             (case t (c_key cur) of
                None \<Rightarrow> (- 31803, cur, t)
              | Some v \<Rightarrow> (0, cur\<lparr>c_value := v\<rparr>, t))
         | Reset \<Rightarrow> (0, clear_key_value_set cur, t)
         | Close \<Rightarrow> (0, cur, t)),
      WT_NOTFOUND = - 31803,
      WT_DUPLICATE_KEY = - 31801,
      WT_PANIC = - 31804,
      EINVAL = 22,
      ETIMEDOUT = 110\<rparr>"

definition blank_cursor :: wt_cursor where
  "blank_cursor = \<lparr>c_uri = [], c_config = [], c_key = [], c_value = [], c_flags = {}\<rparr>"

definition world_of :: "(string \<rightharpoonup> string) \<Rightarrow> (string \<rightharpoonup> string) world" where
  "world_of t = \<lparr>eng = t, cursors = (\<lambda>c. blank_cursor), ncursors = 0, trace = []\<rparr>"

text \<open>
  An op on the table \<open>uri\<close>, of kind \<open>kind\<close>, with key \<open>k\<close>, value \<open>v\<close> and
  callback number \<open>f\<close>, as a worker holds it after the dequeue. Every such op has
  the same two hashes, whatever its uri.
\<close>

definition table_op ::
  "string \<Rightarrow> wt_async_optype \<Rightarrow> string \<Rightarrow> string \<Rightarrow> nat \<Rightarrow> wt_async_op_impl" where
  "table_op uri kind k v f =
     \<lparr>op_c = \<lparr>c_uri = [], c_config = [], c_key = k, c_value = v,
              c_flags = {WT_CURSTD_KEY_EXT, WT_CURSTD_VALUE_EXT}\<rparr>,
      op_cb = Some \<lparr>cb_notify = Some f\<rparr>,
      op_format = \<lparr>f_uri = uri, f_config = ''raw'', f_uri_hash = 11, f_cfg_hash = 7\<rparr>,
      op_optype = kind,
      op_state = WT_ASYNCOP_WORKING\<rparr>"

definition no_cursors :: wt_async_worker_state where
  "no_cursors = \<lparr>cursorqh = [], num_cursors = 0\<rparr>"

text \<open>
  A connection with \<open>n\<close> workers configured, all at the top of their loops, the
  queue \<open>q\<close> of enqueued ops, and a flush in progress when the queue holds the flush op.
\<close>

definition conn_of :: "32 word \<Rightarrow> op_ref list \<Rightarrow> (string \<rightharpoonup> string) conn" where
  "conn_of n q =
     \<lparr>server_run = True,
      async_workers = n,
      opqh = q,
      cur_queue = word_of_nat (length q),
      opsq_flush = (if Flush_op \<in> set q then {WT_ASYNC_FLUSH_IN_PROGRESS} else {}),
      flush_count = 0,
      ops = (\<lambda>r. (table_op ''table:a'' WT_AOP_INSERT ''k'' ''v'' 0)\<lparr>op_state := WT_ASYNCOP_ENQUEUED\<rparr>),
      threads = (\<lambda>w. new_thread),
      world = world_of Map.empty\<rparr>"

text \<open>The transactions begun among the calls of a trace.\<close>

definition txn_begins :: "(nat \<times> request \<times> int) list \<Rightarrow> nat" where
  "txn_begins tr = length (filter (\<lambda>e. fst (snd e) = Txn_begin) tr)"

text \<open>
  What holds of every state the workers reach from a quiescent one: the queue holds
  the flush op at most once, never while \<open>FLUSHING\<close> is set, and no worker stands
  between lines 221 and 225 while the flush op is queued or \<open>FLUSHING\<close> is set.
\<close>

definition flush_inv :: "'e conn \<Rightarrow> bool" where
  "flush_inv s \<longleftrightarrow>
     count_list (opqh s) Flush_op \<le> 1 \<and>
     (Flush_op \<in> set (opqh s) \<longrightarrow> WT_ASYNC_FLUSHING \<notin> opsq_flush s) \<and>
     (Flush_op \<in> set (opqh s) \<or> WT_ASYNC_FLUSHING \<in> opsq_flush s \<longrightarrow>
        (\<forall>w < unat (async_workers s). t_pc (threads s w) \<noteq> At_signal))"

text \<open>
  Worker 0 has armed a flush that cannot finish: \<open>FLUSHING\<close> is set,
  \<open>FLUSH_COMPLETE\<close> is not, the count equals the number of workers, which is 1,
  the queue is empty, and the worker waits inside \<open>__async_flush_wait\<close> or has left.
\<close>

definition stuck_in_flush :: "'e conn \<Rightarrow> bool" where
  "stuck_in_flush s \<longleftrightarrow>
     WT_ASYNC_FLUSHING \<in> opsq_flush s \<and> WT_ASYNC_FLUSH_COMPLETE \<notin> opsq_flush s \<and>
     flush_count s = 1 \<and> async_workers s = 1 \<and> opqh s = [] \<and>
     (t_pc (threads s 0) = In_flush_wait From_pop \<or> t_pc (threads s 0) = Exited)"

subsection \<open>States of the small engine\<close>

text \<open>The cache and the world after a first cursor was fetched for \<open>table:a\<close>.\<close>

definition after_table_a :: "wt_async_worker_state \<times> (string \<rightharpoonup> string) world" where
  "after_table_a =
     snd (async_worker_cursor table_engine 0 (table_op ''table:a'' WT_AOP_INSERT ''k'' ''v'' 0)
            no_cursors (world_of Map.empty))"

text \<open>An op on \<open>table:c\<close>, whose uri hash differs from that of \<open>table:a\<close>.\<close>

definition table_c_op :: wt_async_op_impl where
  "table_c_op =
     (table_op ''table:c'' WT_AOP_INSERT ''k'' ''v'' 0)
       \<lparr>op_format := \<lparr>f_uri = ''table:c'', f_config = ''raw'', f_uri_hash = 13, f_cfg_hash = 7\<rparr>\<rparr>"

text \<open>The cache and the world after a second cursor was fetched, for \<open>table:c\<close>.\<close>

definition after_table_c :: "wt_async_worker_state \<times> (string \<rightharpoonup> string) world" where
  "after_table_c =
     snd (async_worker_cursor table_engine 0 table_c_op (fst after_table_a) (snd after_table_a))"

text \<open>The cache and the world after the handler ran an op on \<open>table:missing\<close>.\<close>

definition after_missing :: "wt_async_worker_state \<times> (string \<rightharpoonup> string) world" where
  "after_missing =
     snd (snd (async_worker_op table_engine 0
                 (table_op ''table:missing'' WT_AOP_INSERT ''k'' ''v'' 0)
                 no_cursors (world_of Map.empty)))"

text \<open>
  Two workers, the queue \<open>[Op 0, Flush_op]\<close>: worker 0 has dequeued the op and
  released the lock, then worker 1 has popped the flush op and armed the flush.
\<close>

definition flush_behind_op :: "(string \<rightharpoonup> string) conn" where
  "flush_behind_op = run table_engine [0, 1] (conn_of 2 [Op 0, Flush_op])"

text \<open>
  Two workers, the queue \<open>[Flush_op, Op 0]\<close>: worker 0 has popped the flush op,
  worker 1 has arrived as the last one and cleared \<open>FLUSHING\<close>, and worker 0 has
  come back from its wait.
\<close>

definition flush_done :: "(string \<rightharpoonup> string) conn" where
  "flush_done = run table_engine [0, 1, 0] (conn_of 2 [Flush_op, Op 0])"

text \<open>Three workers, the queue \<open>[Flush_op, Op 0]\<close>: worker 0 has popped the flush op.\<close>

definition flush_popped :: "(string \<rightharpoonup> string) conn" where
  "flush_popped = wt_async_worker table_engine 0 (conn_of 3 [Flush_op, Op 0])"

text \<open>
  Two workers and a first flush, the queue \<open>[Flush_op]\<close>. Worker 0 pops the flush
  op and waits; worker 1 arrives last, sets \<open>COMPLETE\<close>, clears \<open>FLUSHING\<close> and
  releases the lock at line 221. Before worker 1 goes on, the initiator observes
  \<open>COMPLETE\<close> and returns, a second flush starts, and a producer enqueues
  \<open>Op 1\<close> behind it; worker 0 comes back from its wait, goes round its loop and pops
  the second flush op, which sets \<open>FLUSHING\<close> again.
\<close>

definition second_flush_armed :: "(string \<rightharpoonup> string) conn" where
  "second_flush_armed =
     run table_engine [0, 0, 0]
       (producer_enqueue (Op 1)
          (flush_start (flush_return (run table_engine [0, 1] (conn_of 2 [Flush_op])))))"

section \<open>Properties\<close>

subsection \<open>What each function adds to the trace\<close>

lemmas handler_defs =
  async_worker_op_def async_worker_cursor_def async_worker_execop_def async_notify_def
  async_txn_resolve_def open_cursor_def ext_call_def cursor_call_def execop_bind_def
  cursor_set_raw_key_def cursor_set_raw_value_def cursor_get_raw_value_def
  clear_key_value_set_def wt_tret_def

lemmas sample_defs = table_engine_def table_op_def world_of_def no_cursors_def blank_cursor_def

lemmas worker_defs =
  wt_async_worker_def worker_loop_top_def worker_signal_def async_flush_wait_def
  worker_unlocked_def async_dequeue_def worker_exit_def goto_def conn_of_def new_thread_def
  wait_failed_def

lemmas producer_defs = producer_enqueue_def flush_start_def flush_return_def

lemma ext_call_trace: "ext_call E sid rq s = (r, s') \<Longrightarrow> trace s' = trace s @ [(sid, rq, r)]"
  by (auto simp: ext_call_def split: prod.splits)

lemma cursor_call_trace:
  "cursor_call E sid m c s = (r, s') \<Longrightarrow> trace s' = trace s @ [(sid, Cursor m c, r)]"
  by (auto simp: cursor_call_def split: prod.splits)

lemma open_cursor_trace:
  "open_cursor E sid uri cfg s = (r, c, s') \<Longrightarrow>
     trace s' = trace s @ [(sid, Open_cursor uri cfg, r)]"
  by (auto simp: open_cursor_def dest!: ext_call_trace split: prod.splits if_splits)

lemma ext_call_trace_snd:
  "trace (snd (ext_call E sid rq s)) = trace s @ [(sid, rq, fst (ext_call E sid rq s))]"
  by (simp add: ext_call_def split: prod.splits)

lemma cursor_call_trace_snd:
  "trace (snd (cursor_call E sid m c s)) =
     trace s @ [(sid, Cursor m c, fst (cursor_call E sid m c s))]"
  by (simp add: cursor_call_def split: prod.splits)

lemma txn_resolutions_snoc:
  "txn_resolutions (tr @ [(sid, rq, r)]) =
     txn_resolutions tr @ (if rq = Txn_commit \<or> rq = Txn_rollback then [rq] else [])"
  by (simp add: txn_resolutions_def)

lemma worker_cursor_resolutions:
  "async_worker_cursor E sid op worker s = (res, worker', s') \<Longrightarrow>
     txn_resolutions (trace s') = txn_resolutions (trace s)"
  by (auto simp: async_worker_cursor_def txn_resolutions_def ext_call_trace_snd
           dest!: ext_call_trace open_cursor_trace
           split: option.splits prod.splits if_splits)

lemma execop_resolutions:
  "async_worker_execop E sid op cursor s = (ret, op', s') \<Longrightarrow>
     txn_resolutions (trace s') = txn_resolutions (trace s)"
  by (auto simp: async_worker_execop_def Let_def txn_resolutions_def ext_call_trace_snd
           dest!: ext_call_trace cursor_call_trace
           split: wt_async_optype.splits prod.splits if_splits)

lemma notify_resolutions:
  "async_notify E sid op ret s = (cb_ret, s') \<Longrightarrow>
     txn_resolutions (trace s') = txn_resolutions (trace s)"
  by (auto simp: async_notify_def txn_resolutions_snoc
           dest!: ext_call_trace split: option.splits)

lemma txn_resolve_resolutions:
  "async_txn_resolve E sid ret cb_ret s = (ret1, s') \<Longrightarrow>
     txn_resolutions (trace s') =
       txn_resolutions (trace s) @
         [if (ret = 0 \<or> ret = WT_NOTFOUND E) \<and> cb_ret = 0 then Txn_commit else Txn_rollback]"
  by (auto simp: async_txn_resolve_def txn_resolutions_snoc
           dest!: ext_call_trace split: prod.splits if_splits)

lemma execop_cb:
  "async_worker_execop E sid op cursor s = (ret, op', s') \<Longrightarrow> op_cb op' = op_cb op"
  by (auto simp: async_worker_execop_def Let_def
           split: wt_async_optype.splits prod.splits if_splits)

lemma notify_no_callback:
  "async_notify E sid op ret s = (cb_ret, s') \<Longrightarrow>
     op_cb op = None \<or> (\<exists>cb. op_cb op = Some cb \<and> cb_notify cb = None) \<Longrightarrow> cb_ret = 0"
  by (auto simp: async_notify_def split: option.splits)

subsection \<open>The cursor cache\<close>

lemma cursorq_find_cached: "cursorq_find f q = Some c \<Longrightarrow> c \<in> ac_c ` set q"
  by (induction q) (auto split: if_splits)

lemma cursorq_find_hashes:
  "f_cfg_hash f = f_cfg_hash g \<Longrightarrow> f_uri_hash f = f_uri_hash g \<Longrightarrow>
     cursorq_find f q = cursorq_find g q"
  by (induction q) auto

lemma worker_cursor_found:
  "async_worker_cursor E sid op worker s = (Inr c, worker', s') \<Longrightarrow>
     cursorq_find (op_format op) (cursorqh worker') = Some c"
  by (auto simp: async_worker_cursor_def split: option.splits prod.splits if_splits)

lemma worker_cursor_opens:
  "async_worker_cursor E sid op worker s = (res, worker', s') \<Longrightarrow>
     cursor_opens (trace s') \<le> Suc (cursor_opens (trace s))"
  by (auto simp: async_worker_cursor_def cursor_opens_def ext_call_trace_snd
           dest!: ext_call_trace open_cursor_trace
           split: option.splits prod.splits if_splits)

text \<open>
  A cursor the cache returns is open on the uri and config of the op's format when
  no colliding format was cached: on a hit by \<open>no_collision\<close>, on a miss because it
  was just opened on them.
\<close>

lemma worker_cursor_usable:
  assumes "async_worker_cursor E sid op worker s = (Inr c, worker', s')"
    and "no_collision worker s (op_format op)"
  shows "c_uri (cursors s' c) = f_uri (op_format op) \<and>
         c_config (cursors s' c) = f_config (op_format op)"
proof (cases "cursorq_find (op_format op) (cursorqh worker)")
  case (Some c')
  have hit: "cursorq_find f q = Some x \<Longrightarrow>
      \<exists>ac \<in> set q. f_cfg_hash f = ac_cfg_hash ac \<and> f_uri_hash f = ac_uri_hash ac \<and> ac_c ac = x"
    for f q x
    by (induction q) (auto split: if_splits)
  from Some assms(1) have "c' = c" "s' = s"
    by (simp_all add: async_worker_cursor_def)
  with hit [OF Some] assms(2) show ?thesis
    by (auto simp: no_collision_def)
next
  case None
  with assms(1) show ?thesis
    by (auto simp: async_worker_cursor_def open_cursor_def ext_call_def
             split: prod.splits if_splits)
qed

text \<open>
  How \<open>no_collision\<close> comes about: it holds of the empty cache, and a call for an
  op keeps it for every format \<open>g\<close> that does not collide with the op's format
  (equal hashes give equal uri and config).
\<close>

lemma no_collision_empty: "no_collision no_cursors s g \<and> cache_fresh no_cursors s"
  by (simp add: no_collision_def cache_fresh_def no_cursors_def)

lemma no_collision_kept:
  assumes "async_worker_cursor E sid op worker s = (res, worker', s')"
    and "cache_fresh worker s"
    and "no_collision worker s g"
    and "f_cfg_hash g = f_cfg_hash (op_format op) \<and> f_uri_hash g = f_uri_hash (op_format op) \<longrightarrow>
           f_uri g = f_uri (op_format op) \<and> f_config g = f_config (op_format op)"
  shows "no_collision worker' s' g \<and> cache_fresh worker' s'"
proof (cases "cursorq_find (op_format op) (cursorqh worker)")
  case (Some c)
  with assms show ?thesis
    by (simp add: async_worker_cursor_def)
next
  case None
  have old: "cursors s' (ac_c ac) = cursors s (ac_c ac)" if "ac \<in> set (cursorqh worker)" for ac
  proof -
    from that assms(2) have "ac_c ac \<noteq> ncursors s"
      by (auto simp: cache_fresh_def)
    with None assms(1) show ?thesis
      by (auto simp: async_worker_cursor_def open_cursor_def ext_call_def
               split: prod.splits if_splits)
  qed
  have grow: "ncursors s \<le> ncursors s'"
    using None assms(1)
    by (auto simp: async_worker_cursor_def open_cursor_def ext_call_def
             split: prod.splits if_splits)
  consider (same) "worker' = worker"
    | (new) "cursorqh worker' =
               \<lparr>ac_cfg_hash = f_cfg_hash (op_format op),
                ac_uri_hash = f_uri_hash (op_format op), ac_c = ncursors s\<rparr> # cursorqh worker"
        "cursors s' (ncursors s) =
           \<lparr>c_uri = f_uri (op_format op), c_config = f_config (op_format op),
            c_key = [], c_value = [], c_flags = {}\<rparr>"
        "ncursors s' = Suc (ncursors s)"
    using None assms(1)
    by (auto simp: async_worker_cursor_def open_cursor_def ext_call_def
             split: prod.splits if_splits)
  then show ?thesis
  proof cases
    case same
    with assms(2,3) old grow show ?thesis
      by (fastforce simp: no_collision_def cache_fresh_def)
  next
    case new
    with assms(2,3,4) old show ?thesis
      by (auto simp: no_collision_def cache_fresh_def less_Suc_eq)
  qed
qed

subsection \<open>What a step of a worker leaves alone\<close>

lemma goto_simps:
  "opqh (goto w p s) = opqh s"
  "opsq_flush (goto w p s) = opsq_flush s"
  "flush_count (goto w p s) = flush_count s"
  "async_workers (goto w p s) = async_workers s"
  "server_run (goto w p s) = server_run s"
  "world (goto w p s) = world s"
  "ops (goto w p s) = ops s"
  "t_pc (threads (goto w p s) w') = (if w' = w then p else t_pc (threads s w'))"
  by (simp_all add: goto_def)

lemma worker_exit_simps:
  "opqh (worker_exit E w err s) = opqh s"
  "opsq_flush (worker_exit E w err s) = opsq_flush s"
  "flush_count (worker_exit E w err s) = flush_count s"
  "async_workers (worker_exit E w err s) = async_workers s"
  "server_run (worker_exit E w err s) = server_run s"
  "ops (worker_exit E w err s) = ops s"
  "t_pc (threads (worker_exit E w err s) w') = (if w' = w then Exited else t_pc (threads s w'))"
  by (simp_all add: worker_exit_def Let_def)

lemma worker_unlocked_simps:
  "opqh (worker_unlocked E w op s) = opqh s"
  "opsq_flush (worker_unlocked E w op s) = opsq_flush s"
  "flush_count (worker_unlocked E w op s) = flush_count s"
  "async_workers (worker_unlocked E w op s) = async_workers s"
  "server_run (worker_unlocked E w op s) = server_run s"
  "t_pc (threads (worker_unlocked E w op s) w') =
     (if w' = w then Loop_top else t_pc (threads s w'))"
  by (simp_all add: worker_unlocked_def goto_def split: prod.splits)

lemma async_dequeue_world: "world (async_dequeue w s) = world s"
  by (simp add: async_dequeue_def goto_def Let_def split: list.splits)

lemma run_snoc:
  "run E (sched @ [w]) s =
     (if w < unat (async_workers (run E sched s)) then wt_async_worker E w (run E sched s)
      else run E sched s)"
  by (induction sched arbitrary: s) simp_all

subsection \<open>The flush invariant\<close>

lemma count_list_head_unique: "count_list (x # q) x \<le> 1 \<Longrightarrow> x \<notin> set q"
  by (simp add: count_list_0_iff)

lemma async_dequeue_workers: "async_workers (async_dequeue w s) = async_workers s"
  by (simp add: async_dequeue_def goto_def Let_def split: list.splits)

lemma flush_inv_dequeue:
  assumes "flush_inv s"
  shows "flush_inv (async_dequeue w s)"
proof (cases "opqh s")
  case Nil
  with assms show ?thesis
    by (auto simp: flush_inv_def async_dequeue_def goto_simps)
next
  case (Cons op q)
  show ?thesis
  proof (cases "op = Flush_op")
    case True
    with Cons assms have "Flush_op \<notin> set q"
      using count_list_head_unique [of Flush_op q] by (simp add: flush_inv_def)
    with True Cons assms show ?thesis
      by (auto simp: flush_inv_def async_dequeue_def goto_simps Let_def count_list_0_iff)
  next
    case False
    with Cons assms show ?thesis
      by (auto simp: flush_inv_def async_dequeue_def goto_simps Let_def)
  qed
qed

lemma flush_inv_world: "flush_inv (s\<lparr>world := wd\<rparr>) = flush_inv s"
  by (simp add: flush_inv_def)

lemma flush_inv_exit: "flush_inv s \<Longrightarrow> flush_inv (worker_exit E w err s)"
  by (auto simp: flush_inv_def worker_exit_simps)

lemma flush_inv_goto: "flush_inv s \<Longrightarrow> p \<noteq> At_signal \<Longrightarrow> flush_inv (goto w p s)"
  by (auto simp: flush_inv_def goto_simps)

lemma flush_inv_step: "flush_inv s \<Longrightarrow> flush_inv (wt_async_worker E w s)"
proof (cases "t_pc (threads s w)")
  case Loop_top
  assume inv: "flush_inv s"
  show ?thesis
  proof (cases "WT_ASYNC_FLUSHING \<in> opsq_flush s")
    case True
    with inv Loop_top show ?thesis
      by (auto simp: wt_async_worker_def worker_loop_top_def Let_def flush_inv_def
                     goto_simps worker_exit_simps)
  next
    case False
    with inv Loop_top show ?thesis
      by (simp add: wt_async_worker_def worker_loop_top_def flush_inv_exit flush_inv_dequeue)
  qed
next
  case (In_flush_wait site)
  assume inv: "flush_inv s"
  with In_flush_wait show ?thesis
    by (auto simp: wt_async_worker_def async_flush_wait_def flush_inv_exit flush_inv_world
             intro!: flush_inv_dequeue flush_inv_goto
             split: prod.splits wait_site.splits)
next
  case At_signal
  assume inv: "flush_inv s"
  with At_signal show ?thesis
    by (auto simp: wt_async_worker_def worker_signal_def flush_inv_exit flush_inv_world
             intro!: flush_inv_dequeue split: prod.splits)
next
  case (Unlocked_with op)
  assume "flush_inv s"
  with Unlocked_with show ?thesis
    by (auto simp: wt_async_worker_def flush_inv_def worker_unlocked_simps)
next
  case Exited
  assume "flush_inv s"
  with Exited show ?thesis
    by (simp add: wt_async_worker_def)
qed

lemma flush_inv_run: "flush_inv s \<Longrightarrow> flush_inv (run E sched s)"
  by (induction sched arbitrary: s) (simp_all add: flush_inv_step)

lemma step_workers: "async_workers (wt_async_worker E w s) = async_workers s"
  by (simp add: wt_async_worker_def worker_loop_top_def worker_signal_def async_flush_wait_def
                worker_unlocked_simps worker_exit_simps goto_simps async_dequeue_workers Let_def
           split: pc.splits prod.splits wait_site.splits)

lemma run_workers: "async_workers (run E sched s) = async_workers s"
  by (induction sched arbitrary: s) (simp_all add: step_workers)

lemma quiescent_flush_inv: "quiescent s \<Longrightarrow> flush_inv s"
  by (simp add: quiescent_def flush_inv_def)

lemma flushing_step_keeps_queue:
  assumes "flush_inv s" and "WT_ASYNC_FLUSHING \<in> opsq_flush s"
    and "w < unat (async_workers s)"
  shows "opqh (wt_async_worker E w s) = opqh s"
  using assms
  by (cases "t_pc (threads s w)")
     (auto simp: wt_async_worker_def worker_loop_top_def async_flush_wait_def Let_def
                 flush_inv_def goto_simps worker_exit_simps worker_unlocked_simps
           split: prod.splits)

lemma flushing_step_wait_path:
  assumes "WT_ASYNC_FLUSHING \<in> opsq_flush s" and "server_run s"
    and "t_pc (threads s w) = Loop_top"
  shows "t_pc (threads (wt_async_worker E w s) w) \<in> {In_flush_wait From_arrival, At_signal}"
  using assms
  by (auto simp: wt_async_worker_def worker_loop_top_def Let_def goto_simps)

text \<open>
  In a run of the workers alone from a quiescent state no second flush is armed, and
  then no worker at all, the last arrival included, dequeues while \<open>FLUSHING\<close> is set.
\<close>

lemma single_flush_no_dequeue:
  assumes "quiescent s0" and "WT_ASYNC_FLUSHING \<in> opsq_flush (run E sched s0)"
    and "w < unat (async_workers s0)"
  shows "opqh (wt_async_worker E w (run E sched s0)) = opqh (run E sched s0)"
proof -
  have "flush_inv (run E sched s0)"
    using assms(1) by (simp add: flush_inv_run quiescent_flush_inv)
  moreover note assms(2)
  moreover have "w < unat (async_workers (run E sched s0))"
    using assms(3) by (simp add: run_workers)
  ultimately show ?thesis
    by (rule flushing_step_keeps_queue)
qed

subsection \<open>A worker that finds a flush going on\<close>

lemma flushing_step_keeps_queue_unless_signal:
  assumes "WT_ASYNC_FLUSHING \<in> opsq_flush s" and "t_pc (threads s w) \<noteq> At_signal"
  shows "opqh (wt_async_worker E w s) = opqh s"
proof (cases "t_pc (threads s w)")
  case Loop_top
  with assms(1) show ?thesis
    by (simp add: wt_async_worker_def worker_loop_top_def Let_def goto_simps worker_exit_simps)
next
  case (In_flush_wait site)
  with assms(1) show ?thesis
    by (simp add: wt_async_worker_def async_flush_wait_def worker_exit_simps split: prod.splits)
next
  case At_signal
  with assms(2) show ?thesis by simp
next
  case (Unlocked_with op)
  then show ?thesis
    by (simp add: wt_async_worker_def worker_unlocked_simps)
next
  case Exited
  then show ?thesis
    by (simp add: wt_async_worker_def)
qed

lemma flushing_step_stays_waiting:
  assumes "WT_ASYNC_FLUSHING \<in> opsq_flush s" and "t_pc (threads s w) = In_flush_wait site"
  shows "t_pc (threads (wt_async_worker E w s) w) \<in> {In_flush_wait site, Exited}"
  using assms
  by (simp add: wt_async_worker_def async_flush_wait_def worker_exit_simps split: prod.splits)

subsection \<open>Who arms a flush, and who begins a transaction\<close>

lemma close_cursors_begins:
  "txn_begins (trace (close_cursors E sid q s)) = txn_begins (trace s)"
  by (induction q arbitrary: s)
     (simp_all add: txn_begins_def ext_call_trace_snd cursor_call_trace_snd)

lemma worker_exit_begins:
  "txn_begins (trace (world (worker_exit E w err s))) = txn_begins (trace (world s))"
  by (cases err)
     (simp_all add: worker_exit_def Let_def close_cursors_begins,
      simp add: txn_begins_def ext_call_trace_snd)

lemma step_begins_only_unlocked:
  assumes "txn_begins (trace (world (wt_async_worker E w s))) \<noteq> txn_begins (trace (world s))"
  shows "\<exists>n. t_pc (threads s w) = Unlocked_with (Op n)"
proof (cases "t_pc (threads s w)")
  case Loop_top
  with assms show ?thesis
    by (simp add: wt_async_worker_def worker_loop_top_def Let_def worker_exit_begins
                  goto_simps async_dequeue_world split: if_splits)
next
  case (In_flush_wait site)
  have "txn_begins (trace (snd (ext_call E w Cond_wait (world s)))) = txn_begins (trace (world s))"
    by (simp add: txn_begins_def ext_call_trace_snd)
  with assms In_flush_wait show ?thesis
    by (auto simp: wt_async_worker_def async_flush_wait_def worker_exit_begins
                   goto_simps async_dequeue_world
             split: prod.splits if_splits wait_site.splits)
next
  case At_signal
  have "txn_begins (trace (snd (ext_call E w Cond_signal (world s)))) = txn_begins (trace (world s))"
    by (simp add: txn_begins_def ext_call_trace_snd)
  with assms At_signal show ?thesis
    by (auto simp: wt_async_worker_def worker_signal_def worker_exit_begins async_dequeue_world
             split: prod.splits if_splits)
next
  case (Unlocked_with op)
  with assms show ?thesis
    by (cases op) (simp_all add: wt_async_worker_def worker_unlocked_def goto_simps)
next
  case Exited
  with assms show ?thesis
    by (simp add: wt_async_worker_def)
qed

lemma step_arms_flushing:
  assumes "WT_ASYNC_FLUSHING \<notin> opsq_flush s"
    and "WT_ASYNC_FLUSHING \<in> opsq_flush (wt_async_worker E w s)"
  shows "opqh s = Flush_op # opqh (wt_async_worker E w s)
       \<and> t_pc (threads (wt_async_worker E w s) w) = In_flush_wait From_pop"
proof -
  have deq: "WT_ASYNC_FLUSHING \<in> opsq_flush (async_dequeue w (s\<lparr>world := wd\<rparr>)) \<Longrightarrow>
      opqh s = Flush_op # opqh (async_dequeue w (s\<lparr>world := wd\<rparr>))
      \<and> t_pc (threads (async_dequeue w (s\<lparr>world := wd\<rparr>)) w) = In_flush_wait From_pop" for wd
    using assms(1)
    by (auto simp: async_dequeue_def goto_def Let_def split: list.splits if_splits)
  from deq [of "world s"] have deq0: "WT_ASYNC_FLUSHING \<in> opsq_flush (async_dequeue w s) \<Longrightarrow>
      opqh s = Flush_op # opqh (async_dequeue w s)
      \<and> t_pc (threads (async_dequeue w s) w) = In_flush_wait From_pop"
    by simp
  show ?thesis
  proof (cases "t_pc (threads s w)")
    case Loop_top
    with assms deq0 show ?thesis
      by (auto simp: wt_async_worker_def worker_loop_top_def worker_exit_simps split: if_splits)
  next
    case (In_flush_wait site)
    with assms deq show ?thesis
      by (auto simp: wt_async_worker_def async_flush_wait_def worker_exit_simps goto_simps
               split: prod.splits if_splits wait_site.splits)
  next
    case At_signal
    with assms deq show ?thesis
      by (auto simp: wt_async_worker_def worker_signal_def worker_exit_simps
               split: prod.splits if_splits)
  next
    case (Unlocked_with op)
    with assms show ?thesis
      by (simp add: wt_async_worker_def worker_unlocked_simps)
  next
    case Exited
    with assms show ?thesis
      by (simp add: wt_async_worker_def)
  qed
qed

subsection \<open>Arriving at a flush\<close>

text \<open>
  Lines 203-235: a worker that finds \<open>FLUSHING\<close> set at the top of its loop adds
  one to the count; when that makes the count equal the number of workers it sets
  \<open>FLUSH_COMPLETE\<close>, clears \<open>FLUSHING\<close> and releases the lock to signal, and
  otherwise it changes no flag and waits.
\<close>

lemma arrival_counts_once:
  assumes "t_pc (threads s w) = Loop_top" and "server_run s"
    and "WT_ASYNC_FLUSHING \<in> opsq_flush s"
  shows "flush_count (wt_async_worker E w s) = flush_count s + 1
       \<and> (if flush_count s + 1 = async_workers s
          then opsq_flush (wt_async_worker E w s) =
                 insert WT_ASYNC_FLUSH_COMPLETE (opsq_flush s) - {WT_ASYNC_FLUSHING}
               \<and> t_pc (threads (wt_async_worker E w s) w) = At_signal
          else opsq_flush (wt_async_worker E w s) = opsq_flush s
               \<and> t_pc (threads (wt_async_worker E w s) w) = In_flush_wait From_arrival)"
  using assms
  by (simp add: wt_async_worker_def worker_loop_top_def Let_def goto_def)

text \<open>With two workers the flush of \<open>flush_done\<close> has finished, and worker 1 signals next.\<close>

lemma two_worker_flush_completes:
  "opsq_flush flush_done = {WT_ASYNC_FLUSH_COMPLETE, WT_ASYNC_FLUSH_IN_PROGRESS}
   \<and> flush_count flush_done = 2
   \<and> t_pc (threads flush_done 1) = At_signal
   \<and> trace (world (run table_engine [1] flush_done)) = [(0, Cond_wait, 0), (1, Cond_signal, 0)]"
  by (auto simp: flush_done_def worker_defs handler_defs sample_defs Let_def)

subsection \<open>A flush with one worker\<close>

lemma stuck_first: "stuck_in_flush (wt_async_worker E 0 (conn_of 1 [Flush_op]))"
  by (simp add: stuck_in_flush_def wt_async_worker_def conn_of_def new_thread_def
                worker_loop_top_def async_dequeue_def goto_def)

lemma stuck_step: "stuck_in_flush s \<Longrightarrow> stuck_in_flush (wt_async_worker E 0 s)"
  by (auto simp: stuck_in_flush_def wt_async_worker_def async_flush_wait_def worker_exit_simps
           split: prod.splits if_splits)

subsection \<open>A failed cursor open, for every engine\<close>

lemma cursor_open_failure_returns_early:
  assumes "ext_call E sid Txn_begin s = (0, s0)"
    and "cursorq_find (op_format op) (cursorqh worker) = None"
    and "ext_call E sid Calloc s0 = (0, s1)"
    and "ext_call E sid (Open_cursor (f_uri (op_format op)) (f_config (op_format op))) s1 = (r, s2)"
    and "r \<noteq> 0"
  shows "async_worker_op E sid op worker s = (r, op, worker, snd (ext_call E sid Free s2))"
  using assms
  by (simp add: async_worker_op_def async_worker_cursor_def open_cursor_def)

section \<open>The claims\<close>

text \<open>
  C1: when the cursor cannot be obtained, the transaction already begun is rolled
  back before the error propagates, the callback is notified with the engine status,
  the op is recycled, and the cursor cache is left unchanged.

  The code does not do this. \<open>WT_RET\<close> at line 150 returns at once: on the table
  \<open>table:missing\<close>, whose open fails with 2, the handler returns 2 after the calls
  begin, calloc, open_cursor and free. No rollback and no callback follow, and the op
  comes back as it went in, still \<open>WORKING\<close>. Only the last part of the sentence
  holds: the cache is unchanged and the entry is freed. The sibling path, an executor
  that fails, does roll back, notify and recycle (lines 154-173).
  \<open>cursor_open_failure_returns_early\<close> above says the same of every engine.
\<close>

theorem cursor_open_failure_skips_rollback:
  "async_worker_op table_engine 0 (table_op ''table:missing'' WT_AOP_INSERT ''k'' ''v'' 0)
     no_cursors (world_of Map.empty) =
   (2, table_op ''table:missing'' WT_AOP_INSERT ''k'' ''v'' 0, no_cursors,
    (world_of Map.empty)
      \<lparr>trace := [(0, Txn_begin, 0), (0, Calloc, 0),
                 (0, Open_cursor ''table:missing'' ''raw'', 2), (0, Free, 0)]\<rparr>)"
  by (simp add: handler_defs sample_defs)

text \<open>
  C2: an op that reaches the commit/rollback step (the transaction has begun and
  the cursor was obtained) is committed if and only if the executor's status is 0 or
  \<open>WT_NOTFOUND\<close> and the callback returned 0, where the callback's return value is
  0 when the op has no callback or the callback has no notify function; otherwise it
  is rolled back. The handler adds exactly one resolution to those of the trace.
\<close>

theorem commit_iff_status_ok_and_callback_zero:
  assumes "ext_call E sid Txn_begin s = (0, s0)"
    and "async_worker_cursor E sid op worker s0 = (Inr cursor, worker1, s1)"
    and "async_worker_execop E sid op cursor s1 = (ret, op1, s2)"
    and "async_notify E sid op1 ret s2 = (cb_ret, s3)"
  shows "txn_resolutions (trace (snd (snd (snd (async_worker_op E sid op worker s))))) =
           txn_resolutions (trace s) @
             [if (ret = 0 \<or> ret = WT_NOTFOUND E) \<and> cb_ret = 0 then Txn_commit else Txn_rollback]
         \<and> (op_cb op = None \<or> (\<exists>cb. op_cb op = Some cb \<and> cb_notify cb = None) \<longrightarrow> cb_ret = 0)"
proof -
  obtain ret1 s4 where res: "async_txn_resolve E sid ret cb_ret s3 = (ret1, s4)"
    by (cases "async_txn_resolve E sid ret cb_ret s3")
  obtain r5 s5 where rst: "cursor_call E sid Reset cursor s4 = (r5, s5)"
    by (cases "cursor_call E sid Reset cursor s4")
  have out: "snd (snd (snd (async_worker_op E sid op worker s))) = s5"
    using assms res rst by (simp add: async_worker_op_def)
  have "txn_resolutions (trace s5) = txn_resolutions (trace s4)"
    using cursor_call_trace [OF rst] by (simp add: txn_resolutions_snoc)
  also have "\<dots> = txn_resolutions (trace s3) @
      [if (ret = 0 \<or> ret = WT_NOTFOUND E) \<and> cb_ret = 0 then Txn_commit else Txn_rollback]"
    by (rule txn_resolve_resolutions [OF res])
  also have "txn_resolutions (trace s3) = txn_resolutions (trace s2)"
    by (rule notify_resolutions [OF assms(4)])
  also have "\<dots> = txn_resolutions (trace s1)"
    by (rule execop_resolutions [OF assms(3)])
  also have "\<dots> = txn_resolutions (trace s0)"
    by (rule worker_cursor_resolutions [OF assms(2)])
  also have "\<dots> = txn_resolutions (trace s)"
    using ext_call_trace [OF assms(1)] by (simp add: txn_resolutions_snoc)
  finally have law: "txn_resolutions (trace s5) = txn_resolutions (trace s) @
      [if (ret = 0 \<or> ret = WT_NOTFOUND E) \<and> cb_ret = 0 then Txn_commit else Txn_rollback]" .
  have "op_cb op1 = op_cb op"
    by (rule execop_cb [OF assms(3)])
  then have "op_cb op = None \<or> (\<exists>cb. op_cb op = Some cb \<and> cb_notify cb = None) \<longrightarrow> cb_ret = 0"
    using notify_no_callback [OF assms(4)] by auto
  with law out show ?thesis by simp
qed

text \<open>
  C2 on the small engine: a search for an absent key returns \<open>WT_NOTFOUND\<close>, its
  callback returns 0, and the transaction is committed; an insert that succeeds but
  whose callback returns 1 is rolled back.
\<close>

theorem commit_iff_witness:
  "txn_resolutions (trace (snd (snd (snd (async_worker_op table_engine 0
       (table_op ''table:a'' WT_AOP_SEARCH ''k'' [] 0) no_cursors (world_of Map.empty))))))
     = [Txn_commit]
   \<and> txn_resolutions (trace (snd (snd (snd (async_worker_op table_engine 0
       (table_op ''table:a'' WT_AOP_INSERT ''k'' ''v'' 1) no_cursors (world_of Map.empty))))))
     = [Txn_rollback]"
proof -
  let ?E = table_engine and ?w = "world_of Map.empty"
  let ?s0 = "snd (ext_call ?E 0 Txn_begin ?w)"
  have b: "ext_call ?E 0 Txn_begin ?w = (0, ?s0)"
    by (simp add: handler_defs sample_defs)
  let ?a = "table_op ''table:a'' WT_AOP_SEARCH ''k'' [] 0"
  have a1: "async_worker_cursor ?E 0 ?a no_cursors ?s0 =
      (Inr 0, fst (snd (async_worker_cursor ?E 0 ?a no_cursors ?s0)),
       snd (snd (async_worker_cursor ?E 0 ?a no_cursors ?s0)))"
    by (simp add: handler_defs sample_defs)
  let ?s1 = "snd (snd (async_worker_cursor ?E 0 ?a no_cursors ?s0))"
  have a2: "async_worker_execop ?E 0 ?a 0 ?s1 =
      (- 31803, ?a, snd (snd (async_worker_execop ?E 0 ?a 0 ?s1)))"
    by (simp add: handler_defs sample_defs)
  let ?s2 = "snd (snd (async_worker_execop ?E 0 ?a 0 ?s1))"
  have a3: "async_notify ?E 0 ?a (- 31803) ?s2 = (0, snd (async_notify ?E 0 ?a (- 31803) ?s2))"
    by (simp add: handler_defs sample_defs)
  let ?b = "table_op ''table:a'' WT_AOP_INSERT ''k'' ''v'' 1"
  have b1: "async_worker_cursor ?E 0 ?b no_cursors ?s0 =
      (Inr 0, fst (snd (async_worker_cursor ?E 0 ?b no_cursors ?s0)),
       snd (snd (async_worker_cursor ?E 0 ?b no_cursors ?s0)))"
    by (simp add: handler_defs sample_defs)
  let ?t1 = "snd (snd (async_worker_cursor ?E 0 ?b no_cursors ?s0))"
  have b2: "async_worker_execop ?E 0 ?b 0 ?t1 =
      (0, ?b, snd (snd (async_worker_execop ?E 0 ?b 0 ?t1)))"
    by (simp add: handler_defs sample_defs)
  let ?t2 = "snd (snd (async_worker_execop ?E 0 ?b 0 ?t1))"
  have b3: "async_notify ?E 0 ?b 0 ?t2 = (1, snd (async_notify ?E 0 ?b 0 ?t2))"
    by (simp add: handler_defs sample_defs)
  show ?thesis
    using commit_iff_status_ok_and_callback_zero [OF b a1 a2 a3]
      commit_iff_status_ok_and_callback_zero [OF b b1 b2 b3]
    by (simp add: table_engine_def world_of_def txn_resolutions_def)
qed

text \<open>
  C3: in every flush the worker that pops the flush op sets \<open>flush_count\<close> to 1,
  each other worker that sees \<open>FLUSHING\<close> increments it once, and the worker whose
  increment makes the count equal the number of workers sets \<open>FLUSH_COMPLETE\<close>,
  clears \<open>FLUSHING\<close>, releases the lock and signals.

  With one worker configured the code does not do this. The worker that pops the flush
  op sets the count to 1, which is the number of workers, and then waits at line 264
  for \<open>FLUSHING\<close> to be cleared; the count is compared with the number of workers at
  line 210 only, which this worker does not reach. Whatever the engine answers and
  however long the worker runs, \<open>FLUSHING\<close> stays set, \<open>FLUSH_COMPLETE\<close> is never
  set, and the worker waits (or has left on a failed wait). With two workers or more
  the sentence holds of the worker that arrives last (\<open>arrival_counts_once\<close>,
  \<open>two_worker_flush_completes\<close>).
\<close>

theorem single_worker_flush_never_completes:
  "stuck_in_flush (run E (replicate (Suc n) 0) (conn_of 1 [Flush_op]))"
proof (induction n)
  case 0
  have "async_workers (conn_of 1 [Flush_op]) = 1"
    by (simp add: conn_of_def)
  then show ?case by (simp add: stuck_first)
next
  case (Suc n)
  let ?s = "run E (replicate (Suc n) 0) (conn_of 1 [Flush_op])"
  have "replicate (Suc (Suc n)) (0::nat) = replicate (Suc n) 0 @ [0]"
    by (metis replicate_Suc replicate_append_same)
  moreover have "async_workers ?s = 1"
    using Suc by (simp add: stuck_in_flush_def)
  ultimately have "run E (replicate (Suc (Suc n)) 0) (conn_of 1 [Flush_op]) =
      wt_async_worker E 0 ?s"
    by (simp only: run_snoc) simp
  then show ?case
    using Suc by (simp only: stuck_step)
qed

text \<open>
  C4, as stated: while \<open>FLUSHING\<close> is set no worker dequeues or executes an op
  other than the flush op. Two runs show otherwise.

  An op dequeued before the flush was armed still runs. With two workers and the
  queue \<open>[Op 0, Flush_op]\<close>, worker 0 dequeues the op and releases the lock, worker 1
  pops the flush op and sets \<open>FLUSHING\<close>, and worker 0 then runs the op through the
  handler, commits it and recycles it, with \<open>FLUSHING\<close> set before and after. The
  lock is released before the handler runs so that this can happen.

  The last arrival dequeues without testing \<open>FLUSHING\<close> again. In
  \<open>second_flush_armed\<close> worker 1 stands at line 223 and \<open>FLUSHING\<close> has been set
  again by a second flush; worker 1 signals, takes the lock at line 225 and removes
  \<open>Op 1\<close> from the queue at line 250 with \<open>FLUSHING\<close> set, which the comment at
  lines 207-208 rules out.
\<close>

theorem flushing_stops_neither_running_op_nor_last_arrival:
  "WT_ASYNC_FLUSHING \<in> opsq_flush flush_behind_op
   \<and> t_pc (threads flush_behind_op 0) = Unlocked_with (Op 0)
   \<and> op_state (ops flush_behind_op (Op 0)) = WT_ASYNCOP_WORKING
   \<and> trace (world flush_behind_op) = []
   \<and> WT_ASYNC_FLUSHING \<in> opsq_flush (wt_async_worker table_engine 0 flush_behind_op)
   \<and> txn_resolutions (trace (world (wt_async_worker table_engine 0 flush_behind_op)))
       = [Txn_commit]
   \<and> op_state (ops (wt_async_worker table_engine 0 flush_behind_op) (Op 0)) = WT_ASYNCOP_FREE
   \<and> WT_ASYNC_FLUSHING \<in> opsq_flush second_flush_armed
   \<and> t_pc (threads second_flush_armed 1) = At_signal
   \<and> opqh second_flush_armed = [Op 1]
   \<and> opqh (wt_async_worker table_engine 1 second_flush_armed) = []
   \<and> t_pc (threads (wt_async_worker table_engine 1 second_flush_armed) 1) = Unlocked_with (Op 1)
   \<and> WT_ASYNC_FLUSHING \<in> opsq_flush (wt_async_worker table_engine 1 second_flush_armed)"
  by (simp add: flush_behind_op_def second_flush_armed_def producer_defs worker_defs
                handler_defs sample_defs Let_def txn_resolutions_def)

text \<open>
  C4, amended: in every state, a worker that finds \<open>FLUSHING\<close> set at the top of
  its loop takes the wait path before the dequeue step: it takes nothing off the
  queue and either waits or, as the last to arrive, goes to signal; a worker waiting
  in \<open>__async_flush_wait\<close> that finds \<open>FLUSHING\<close> still set takes nothing off the
  queue and waits again (or leaves on a failed wait), so it proceeds to dequeue only
  after it has seen \<open>FLUSHING\<close> cleared; and a step that takes an op off the queue
  is made with \<open>FLUSHING\<close> clear, unless it is the step of the last arrival after
  its signal, of which nothing is said here. An op dequeued before the flush was
  armed may still run while \<open>FLUSHING\<close> is set.
\<close>

theorem dequeue_only_with_flushing_clear:
  "(opqh (wt_async_worker E w s) \<noteq> opqh s
      \<longrightarrow> WT_ASYNC_FLUSHING \<notin> opsq_flush s \<or> t_pc (threads s w) = At_signal)
   \<and> (WT_ASYNC_FLUSHING \<in> opsq_flush s \<and> server_run s \<and> t_pc (threads s w) = Loop_top
      \<longrightarrow> opqh (wt_async_worker E w s) = opqh s
          \<and> t_pc (threads (wt_async_worker E w s) w) \<in> {In_flush_wait From_arrival, At_signal})
   \<and> (WT_ASYNC_FLUSHING \<in> opsq_flush s \<and> t_pc (threads s w) = In_flush_wait site
      \<longrightarrow> opqh (wt_async_worker E w s) = opqh s
          \<and> t_pc (threads (wt_async_worker E w s) w) \<in> {In_flush_wait site, Exited})"
proof (intro conjI impI)
  assume "opqh (wt_async_worker E w s) \<noteq> opqh s"
  then show "WT_ASYNC_FLUSHING \<notin> opsq_flush s \<or> t_pc (threads s w) = At_signal"
    using flushing_step_keeps_queue_unless_signal [of s w E] by blast
next
  assume a: "WT_ASYNC_FLUSHING \<in> opsq_flush s \<and> server_run s \<and> t_pc (threads s w) = Loop_top"
  then show "opqh (wt_async_worker E w s) = opqh s"
    by (simp add: flushing_step_keeps_queue_unless_signal)
  from a show "t_pc (threads (wt_async_worker E w s) w) \<in> {In_flush_wait From_arrival, At_signal}"
    by (intro flushing_step_wait_path) simp_all
next
  assume a: "WT_ASYNC_FLUSHING \<in> opsq_flush s \<and> t_pc (threads s w) = In_flush_wait site"
  then show "opqh (wt_async_worker E w s) = opqh s"
    by (simp add: flushing_step_keeps_queue_unless_signal)
  from a show "t_pc (threads (wt_async_worker E w s) w) \<in> {In_flush_wait site, Exited}"
    by (intro flushing_step_stays_waiting) simp_all
qed

text \<open>
  C4 amended, on the small engine with three workers and the queue
  \<open>[Flush_op, Op 0]\<close>: the step of worker 0 that takes the flush op off the queue is
  made with \<open>FLUSHING\<close> clear; worker 1 then finds \<open>FLUSHING\<close> set at the top of
  its loop, leaves \<open>Op 0\<close> in the queue and waits; worker 0, waiting, finds
  \<open>FLUSHING\<close> still set, leaves the queue alone and waits again.
\<close>

theorem dequeue_only_with_flushing_clear_witness:
  "opqh (conn_of 3 [Flush_op, Op 0]) = [Flush_op, Op 0]
   \<and> opqh flush_popped = [Op 0]
   \<and> WT_ASYNC_FLUSHING \<notin> opsq_flush (conn_of 3 [Flush_op, Op 0])
   \<and> WT_ASYNC_FLUSHING \<in> opsq_flush flush_popped
   \<and> t_pc (threads flush_popped 1) = Loop_top
   \<and> opqh (wt_async_worker table_engine 1 flush_popped) = [Op 0]
   \<and> t_pc (threads (wt_async_worker table_engine 1 flush_popped) 1) = In_flush_wait From_arrival
   \<and> t_pc (threads flush_popped 0) = In_flush_wait From_pop
   \<and> opqh (wt_async_worker table_engine 0 flush_popped) = [Op 0]
   \<and> t_pc (threads (wt_async_worker table_engine 0 flush_popped) 0) = In_flush_wait From_pop"
proof -
  let ?s0 = "conn_of 3 [Flush_op, Op 0]"
  have a: "opqh ?s0 = [Flush_op, Op 0]" "opqh flush_popped = [Op 0]"
    "WT_ASYNC_FLUSHING \<notin> opsq_flush ?s0"
    by (simp_all add: flush_popped_def worker_defs Let_def)
  have b: "WT_ASYNC_FLUSHING \<in> opsq_flush flush_popped" "server_run flush_popped"
    "t_pc (threads flush_popped 1) = Loop_top"
    "t_pc (threads flush_popped 0) = In_flush_wait From_pop"
    by (simp_all add: flush_popped_def worker_defs Let_def)
  have c: "t_pc (threads (wt_async_worker table_engine 1 flush_popped) 1) = In_flush_wait From_arrival"
    "t_pc (threads (wt_async_worker table_engine 0 flush_popped) 0) = In_flush_wait From_pop"
    by (simp_all add: flush_popped_def worker_defs ext_call_def table_engine_def Let_def)
  have "opqh (wt_async_worker table_engine 0 ?s0) \<noteq> opqh ?s0"
    using a by (simp add: flush_popped_def [symmetric])
  with dequeue_only_with_flushing_clear [where E = table_engine and w = 0 and s = ?s0]
  have d: "WT_ASYNC_FLUSHING \<notin> opsq_flush ?s0 \<or> t_pc (threads ?s0 0) = At_signal"
    by blast
  from dequeue_only_with_flushing_clear [where E = table_engine and w = 1 and s = flush_popped] b
  have e: "opqh (wt_async_worker table_engine 1 flush_popped) = opqh flush_popped"
    by blast
  from dequeue_only_with_flushing_clear
      [where E = table_engine and w = 0 and s = flush_popped and site = From_pop] b
  have f: "opqh (wt_async_worker table_engine 0 flush_popped) = opqh flush_popped"
    by blast
  from a b c d e f show ?thesis
    by (simp only: simp_thms)
qed

text \<open>
  C5: \<open>FLUSHING\<close> is set only by the worker that removes the flush op from the
  head of the queue, in the step that removes it; and the flush op is never passed to
  the handler. A step that sets \<open>FLUSHING\<close> has taken the flush op off the head of
  the queue and leaves its worker in the wait entered at line 264. A worker that
  holds the flush op at line 271 does nothing but go round the loop. A step that
  begins a transaction, which is the handler's first call, is made by a worker that
  holds an op other than the flush op at line 271.
\<close>

theorem flushing_set_by_sentinel_pop_only:
  "(WT_ASYNC_FLUSHING \<notin> opsq_flush s \<and> WT_ASYNC_FLUSHING \<in> opsq_flush (wt_async_worker E w s)
      \<longrightarrow> opqh s = Flush_op # opqh (wt_async_worker E w s)
          \<and> t_pc (threads (wt_async_worker E w s) w) = In_flush_wait From_pop)
   \<and> (t_pc (threads s w) = Unlocked_with Flush_op \<longrightarrow> wt_async_worker E w s = goto w Loop_top s)
   \<and> (txn_begins (trace (world (wt_async_worker E w s))) \<noteq> txn_begins (trace (world s))
      \<longrightarrow> (\<exists>n. t_pc (threads s w) = Unlocked_with (Op n)))"
  using step_arms_flushing [of s E w] step_begins_only_unlocked [of E w s]
  by (auto simp: wt_async_worker_def worker_unlocked_def)

text \<open>
  C5 on the small engine, two workers and the queue \<open>[Flush_op, Op 0]\<close>: the
  first step of worker 0 pops the flush op and sets \<open>FLUSHING\<close>; once the flush is
  done worker 0 holds the flush op at line 271 and only goes round the loop; worker 1
  dequeues \<open>Op 0\<close> and its next step begins the one transaction of the run.
\<close>

theorem flushing_set_by_sentinel_pop_witness:
  "WT_ASYNC_FLUSHING \<notin> opsq_flush (conn_of 2 [Flush_op, Op 0])
   \<and> WT_ASYNC_FLUSHING \<in> opsq_flush (wt_async_worker table_engine 0 (conn_of 2 [Flush_op, Op 0]))
   \<and> opqh (wt_async_worker table_engine 0 (conn_of 2 [Flush_op, Op 0])) = [Op 0]
   \<and> t_pc (threads flush_done 0) = Unlocked_with Flush_op
   \<and> wt_async_worker table_engine 0 flush_done = goto 0 Loop_top flush_done
   \<and> t_pc (threads (run table_engine [1] flush_done) 1) = Unlocked_with (Op 0)
   \<and> txn_begins (trace (world (run table_engine [1] flush_done))) = 0
   \<and> txn_begins (trace (world (wt_async_worker table_engine 1 (run table_engine [1] flush_done))))
       = 1"
proof -
  let ?s = "conn_of 2 [Flush_op, Op 0]"
  have a: "WT_ASYNC_FLUSHING \<notin> opsq_flush ?s"
    "WT_ASYNC_FLUSHING \<in> opsq_flush (wt_async_worker table_engine 0 ?s)"
    "opqh (wt_async_worker table_engine 0 ?s) = [Op 0]"
    by (simp_all add: worker_defs Let_def)
  have b: "t_pc (threads flush_done 0) = Unlocked_with Flush_op"
    by (simp add: flush_done_def worker_defs handler_defs sample_defs Let_def)
  have c: "t_pc (threads (run table_engine [1] flush_done) 1) = Unlocked_with (Op 0)"
    "txn_begins (trace (world (run table_engine [1] flush_done))) = 0"
    "txn_begins (trace (world (wt_async_worker table_engine 1 (run table_engine [1] flush_done))))
       = 1"
    by (simp_all add: flush_done_def worker_defs handler_defs sample_defs Let_def txn_begins_def)
  from flushing_set_by_sentinel_pop_only [where s = ?s and E = table_engine and w = 0]
    flushing_set_by_sentinel_pop_only [where s = flush_done and E = table_engine and w = 0]
    flushing_set_by_sentinel_pop_only
      [where s = "run table_engine [1] flush_done" and E = table_engine and w = 1]
    a b c
  show ?thesis
    by simp
qed

text \<open>
  C6, as stated: the cursor a lookup returns is usable for the op's format, the
  hashes being compared before the uri and config strings. The code compares the two
  hashes only (lines 56-57). Two formats with the same hashes and different uris share
  one cache entry: after a cursor was opened and cached for \<open>table:a\<close>, the lookup
  for an op on \<open>table:b\<close> returns that cursor, which is open on \<open>table:a\<close>.
\<close>

theorem lookup_returns_cursor_of_other_uri:
  "fst (async_worker_cursor table_engine 0 (table_op ''table:b'' WT_AOP_SEARCH ''k'' [] 0)
          (fst after_table_a) (snd after_table_a)) = Inr 0
   \<and> c_uri (cursors (snd after_table_a) 0) = ''table:a''
   \<and> f_uri (op_format (table_op ''table:b'' WT_AOP_SEARCH ''k'' [] 0)) = ''table:b''"
  by (simp add: after_table_a_def handler_defs sample_defs)

text \<open>
  C6, amended: a lookup examines the entries from the head of the list, where new
  entries are inserted, and the first entry whose \<open>cfg_hash\<close> and \<open>uri_hash\<close>
  equal those of the op's format wins: the call returns the cursor cached in that
  entry, makes no call to the engine and leaves the cache as it is. Only the hashes
  are compared, never the uri and config strings. The cursor the call returns is
  usable for the op's format, that is open on its uri and config, provided no format
  with the same two hashes and another uri or config was cached before
  (\<open>no_collision\<close>).
\<close>

theorem lookup_first_hash_match_wins:
  "(cursorqh worker = pre @ ac # post \<and>
    (\<forall>a \<in> set pre. \<not> (f_cfg_hash (op_format op) = ac_cfg_hash a \<and>
                          f_uri_hash (op_format op) = ac_uri_hash a)) \<and>
    f_cfg_hash (op_format op) = ac_cfg_hash ac \<and> f_uri_hash (op_format op) = ac_uri_hash ac
      \<longrightarrow> async_worker_cursor E sid op worker s = (Inr (ac_c ac), worker, s))
   \<and> (async_worker_cursor E sid op worker s = (Inr c, worker', s') \<and>
      no_collision worker s (op_format op)
      \<longrightarrow> c_uri (cursors s' c) = f_uri (op_format op) \<and>
          c_config (cursors s' c) = f_config (op_format op))"
proof -
  have "cursorq_find (op_format op) (pre @ ac # post) = Some (ac_c ac)"
    if "\<forall>a \<in> set pre. \<not> (f_cfg_hash (op_format op) = ac_cfg_hash a \<and>
                          f_uri_hash (op_format op) = ac_uri_hash a)"
      and "f_cfg_hash (op_format op) = ac_cfg_hash ac"
      and "f_uri_hash (op_format op) = ac_uri_hash ac"
    using that by (induction pre) auto
  then show ?thesis
    using worker_cursor_usable [of E sid op worker s c worker' s']
    by (auto simp: async_worker_cursor_def)
qed

text \<open>
  C6 amended, on the cache a worker has after an op on \<open>table:a\<close> and then one on
  \<open>table:c\<close>, whose uri hash is another: the entry of \<open>table:c\<close> stands at the
  head; a lookup for \<open>table:a\<close> passes over it and returns cursor 0 of the second
  entry, which is open on \<open>table:a\<close> with the config \<open>raw\<close>.
\<close>

theorem lookup_first_hash_match_witness:
  "cursorqh (fst after_table_c) =
     [\<lparr>ac_cfg_hash = 7, ac_uri_hash = 13, ac_c = 1\<rparr>, \<lparr>ac_cfg_hash = 7, ac_uri_hash = 11, ac_c = 0\<rparr>]
   \<and> no_collision (fst after_table_c) (snd after_table_c)
        (op_format (table_op ''table:a'' WT_AOP_SEARCH ''k'' [] 0))
   \<and> async_worker_cursor table_engine 0 (table_op ''table:a'' WT_AOP_SEARCH ''k'' [] 0)
        (fst after_table_c) (snd after_table_c) = (Inr 0, fst after_table_c, snd after_table_c)
   \<and> c_uri (cursors (snd after_table_c) 0) = ''table:a''
   \<and> c_config (cursors (snd after_table_c) 0) = ''raw''"
proof -
  let ?op = "table_op ''table:a'' WT_AOP_SEARCH ''k'' [] 0"
  have q: "cursorqh (fst after_table_c) =
     [\<lparr>ac_cfg_hash = 7, ac_uri_hash = 13, ac_c = 1\<rparr>] @
      \<lparr>ac_cfg_hash = 7, ac_uri_hash = 11, ac_c = 0\<rparr> # []"
    by (simp add: after_table_c_def after_table_a_def table_c_op_def handler_defs sample_defs)
  have n: "no_collision (fst after_table_c) (snd after_table_c) (op_format ?op)"
    by (simp add: no_collision_def after_table_c_def after_table_a_def table_c_op_def
                  handler_defs sample_defs)
  have h: "f_cfg_hash (op_format ?op) = 7" "f_uri_hash (op_format ?op) = 11"
    "f_uri (op_format ?op) = ''table:a''" "f_config (op_format ?op) = ''raw''"
    by (simp_all add: table_op_def)
  from lookup_first_hash_match_wins
    [where worker = "fst after_table_c" and pre = "[\<lparr>ac_cfg_hash = 7, ac_uri_hash = 13, ac_c = 1\<rparr>]"
       and ac = "\<lparr>ac_cfg_hash = 7, ac_uri_hash = 11, ac_c = 0\<rparr>" and post = "[]" and op = ?op
       and E = table_engine and sid = 0 and s = "snd after_table_c" and c = 0
       and worker' = "fst after_table_c" and s' = "snd after_table_c"]
    q n h
  show ?thesis
    by simp
qed

text \<open>
  C7: the executor binds the op's key as the cursor's raw key (and, for insert and
  update, the op's value as its raw value); INSERT and UPDATE call the cursor's
  insert, REMOVE its remove, SEARCH its search, once, and the executor returns what
  the call returned; after a search that returned 0 the op's value is the value the
  cursor holds, and after a search that did not (\<open>WT_NOTFOUND\<close> among them) the op is
  unchanged; any other kind returns \<open>EINVAL\<close> without a call to the cursor.
\<close>

theorem execop_dispatch:
  assumes "async_worker_execop E sid op cursor s = (ret, op', s')"
  shows "(let cur = execop_bind op (cursors s cursor) in
          c_key cur = c_key (op_c op) \<and>
          (case op_optype op of
             WT_AOP_INSERT \<Rightarrow>
               c_value cur = c_value (op_c op) \<and>
               ret = fst (cursor_respond E sid Insert cur (eng s)) \<and>
               trace s' = trace s @ [(sid, Cursor Insert cursor, ret)] \<and> op' = op
           | WT_AOP_UPDATE \<Rightarrow>
               c_value cur = c_value (op_c op) \<and>
               ret = fst (cursor_respond E sid Insert cur (eng s)) \<and>
               trace s' = trace s @ [(sid, Cursor Insert cursor, ret)] \<and> op' = op
           | WT_AOP_REMOVE \<Rightarrow>
               ret = fst (cursor_respond E sid Remove cur (eng s)) \<and>
               trace s' = trace s @ [(sid, Cursor Remove cursor, ret)] \<and> op' = op
           | WT_AOP_SEARCH \<Rightarrow>
               ret = fst (cursor_respond E sid Search cur (eng s)) \<and>
               trace s' = trace s @ [(sid, Cursor Search cursor, ret)] \<and>
               (ret = 0 \<longrightarrow>
                  c_value (op_c op') =
                    c_value (fst (snd (cursor_respond E sid Search cur (eng s)))) \<and>
                  c_key (op_c op') = c_key (op_c op)) \<and>
               (ret \<noteq> 0 \<longrightarrow> op' = op)
           | WT_AOP_unknown k \<Rightarrow>
               ret = EINVAL E \<and> op' = op \<and>
               (\<exists>r. trace s' = trace s @ [(sid, Err_report (EINVAL E), r)])))"
  using assms
  by (auto simp: async_worker_execop_def Let_def execop_bind_def cursor_call_def ext_call_def
                 cursor_set_raw_key_def cursor_set_raw_value_def cursor_get_raw_value_def
           split: wt_async_optype.splits prod.splits if_splits)

text \<open>
  C7 on the small engine: the table maps \<open>k\<close> to \<open>v\<close>; a search for \<open>k\<close> by an
  op whose value buffer holds \<open>old\<close> returns 0 after one call of the cursor's
  search, and the op's value buffer holds \<open>v\<close>.
\<close>

theorem execop_dispatch_witness:
  "async_worker_execop table_engine 0 (table_op ''table:a'' WT_AOP_SEARCH ''k'' ''old'' 0) 0
     (world_of [''k'' \<mapsto> ''v'']) =
   (0,
    (table_op ''table:a'' WT_AOP_SEARCH ''k'' ''v'' 0),
    snd (snd (async_worker_execop table_engine 0
                (table_op ''table:a'' WT_AOP_SEARCH ''k'' ''old'' 0) 0
                (world_of [''k'' \<mapsto> ''v'']))))
   \<and> trace (snd (snd (async_worker_execop table_engine 0
                (table_op ''table:a'' WT_AOP_SEARCH ''k'' ''old'' 0) 0
                (world_of [''k'' \<mapsto> ''v'']))))
       = [(0, Cursor Search 0, 0)]"
proof -
  let ?op = "table_op ''table:a'' WT_AOP_SEARCH ''k'' ''old'' 0"
  let ?s = "world_of [''k'' \<mapsto> ''v'']"
  have h: "async_worker_execop table_engine 0 ?op 0 ?s =
      (0, table_op ''table:a'' WT_AOP_SEARCH ''k'' ''v'' 0,
       snd (snd (async_worker_execop table_engine 0 ?op 0 ?s)))"
    by (auto simp: handler_defs sample_defs Let_def)
  from execop_dispatch [OF h] h show ?thesis
    by (simp add: sample_defs Let_def)
qed

text \<open>
  C8: an op that reaches the resolution of its transaction is then recycled, whatever
  commit or rollback returned: its state is \<open>FREE\<close>, its key-set and value-set flags
  are clear, the last two calls of the handler are the commit or rollback and then the
  reset of the cursor, and the cursor is still in the worker's cache.
\<close>

theorem op_recycled_after_resolution:
  assumes "ext_call E sid Txn_begin s = (0, s0)"
    and "async_worker_cursor E sid op worker s0 = (Inr cursor, worker1, s1)"
    and "async_worker_op E sid op worker s = (r, op', worker', s')"
  shows "op_state op' = WT_ASYNCOP_FREE
       \<and> c_flags (op_c op') \<inter>
           {WT_CURSTD_KEY_EXT, WT_CURSTD_KEY_INT, WT_CURSTD_VALUE_EXT, WT_CURSTD_VALUE_INT} = {}
       \<and> (\<exists>tr rq r1 r2. trace s' = tr @ [(sid, rq, r1), (sid, Cursor Reset cursor, r2)]
             \<and> (rq = Txn_commit \<or> rq = Txn_rollback))
       \<and> worker' = worker1
       \<and> cursor \<in> ac_c ` set (cursorqh worker')"
proof -
  obtain ret op1 s2 where ex: "async_worker_execop E sid op cursor s1 = (ret, op1, s2)"
    by (cases "async_worker_execop E sid op cursor s1")
  obtain cb_ret s3 where cb: "async_notify E sid op1 ret s2 = (cb_ret, s3)"
    by (cases "async_notify E sid op1 ret s2")
  obtain ret1 s4 where res: "async_txn_resolve E sid ret cb_ret s3 = (ret1, s4)"
    by (cases "async_txn_resolve E sid ret cb_ret s3")
  obtain r5 s5 where rst: "cursor_call E sid Reset cursor s4 = (r5, s5)"
    by (cases "cursor_call E sid Reset cursor s4")
  have out: "op' = op1\<lparr>op_state := WT_ASYNCOP_FREE, op_c := clear_key_value_set (op_c op1)\<rparr>"
    "worker' = worker1" "s' = s5"
    using assms ex cb res rst by (simp_all add: async_worker_op_def)
  have "\<exists>rq r1. trace s4 = trace s3 @ [(sid, rq, r1)] \<and> (rq = Txn_commit \<or> rq = Txn_rollback)"
    using res
    by (auto simp: async_txn_resolve_def dest!: ext_call_trace split: prod.splits if_splits)
  then have tr: "\<exists>tr rq r1 r2. trace s5 = tr @ [(sid, rq, r1), (sid, Cursor Reset cursor, r2)]
             \<and> (rq = Txn_commit \<or> rq = Txn_rollback)"
    using cursor_call_trace [OF rst] by auto
  have "cursor \<in> ac_c ` set (cursorqh worker1)"
    using worker_cursor_found [OF assms(2)] by (rule cursorq_find_cached)
  with out tr show ?thesis
    by (simp add: clear_key_value_set_def)
qed

text \<open>
  C8 on the small engine: an insert whose callback returns 1 is rolled back, and
  the op comes back \<open>FREE\<close> with no flag set; the cursor opened for it stays in the
  cache, and the handler's last call resets it.
\<close>

theorem op_recycled_witness:
  "op_state (fst (snd (async_worker_op table_engine 0
       (table_op ''table:a'' WT_AOP_INSERT ''k'' ''v'' 1) no_cursors (world_of Map.empty))))
     = WT_ASYNCOP_FREE
   \<and> c_flags (op_c (fst (snd (async_worker_op table_engine 0
       (table_op ''table:a'' WT_AOP_INSERT ''k'' ''v'' 1) no_cursors (world_of Map.empty))))) = {}
   \<and> cursorqh (fst (snd (snd (async_worker_op table_engine 0
       (table_op ''table:a'' WT_AOP_INSERT ''k'' ''v'' 1) no_cursors (world_of Map.empty)))))
     = [\<lparr>ac_cfg_hash = 7, ac_uri_hash = 11, ac_c = 0\<rparr>]
   \<and> last (trace (snd (snd (snd (async_worker_op table_engine 0
       (table_op ''table:a'' WT_AOP_INSERT ''k'' ''v'' 1) no_cursors (world_of Map.empty))))))
     = (0, Cursor Reset 0, 0)"
proof -
  let ?E = table_engine and ?w = "world_of Map.empty"
  let ?op = "table_op ''table:a'' WT_AOP_INSERT ''k'' ''v'' 1"
  let ?s0 = "snd (ext_call ?E 0 Txn_begin ?w)"
  let ?r = "async_worker_op ?E 0 ?op no_cursors ?w"
  have h1: "ext_call ?E 0 Txn_begin ?w = (0, ?s0)"
    by (simp add: handler_defs sample_defs)
  have h2: "async_worker_cursor ?E 0 ?op no_cursors ?s0 =
      (Inr 0, fst (snd (async_worker_cursor ?E 0 ?op no_cursors ?s0)),
       snd (snd (async_worker_cursor ?E 0 ?op no_cursors ?s0)))"
    by (simp add: handler_defs sample_defs)
  have h3: "?r = (fst ?r, fst (snd ?r), fst (snd (snd ?r)), snd (snd (snd ?r)))"
    by simp
  have e: "cursorqh (fst (snd (snd ?r))) = [\<lparr>ac_cfg_hash = 7, ac_uri_hash = 11, ac_c = 0\<rparr>]"
    "c_flags (op_c (fst (snd ?r))) = {}"
    "last (trace (snd (snd (snd ?r)))) = (0, Cursor Reset 0, 0)"
    by (simp_all add: handler_defs sample_defs Let_def)
  from op_recycled_after_resolution [OF h1 h2 h3] e show ?thesis
    by simp
qed

text \<open>
  C9, as stated: of two consecutive ops with the same format the second is a cache
  hit that does not call \<open>open_cursor\<close>. This fails when the first open fails, since
  nothing is cached then: the handler runs an op on \<open>table:missing\<close>, whose open
  fails; for the next op of the same format the lookup misses again and
  \<open>open_cursor\<close> is called a second time.
\<close>

theorem failed_open_is_retried:
  "cursor_opens (trace (snd after_missing)) = 1
   \<and> fst (async_worker_cursor table_engine 0
            (table_op ''table:missing'' WT_AOP_INSERT ''k'' ''v'' 0)
            (fst after_missing) (snd after_missing)) = Inl 2
   \<and> cursor_opens (trace (snd (snd (snd (async_worker_op table_engine 0
         (table_op ''table:missing'' WT_AOP_INSERT ''k'' ''v'' 0)
         (fst after_missing) (snd after_missing)))))) = 2"
  by (simp add: after_missing_def cursor_opens_def handler_defs sample_defs)

text \<open>
  C9, amended: when the first of two calls returns a cursor, from the cache or by
  opening one, a second call for an op with the same \<open>uri_hash\<close> and \<open>cfg_hash\<close>
  returns the same cursor from the cache, in whatever state the world is by then,
  without any call to the engine; and the first call has called \<open>open_cursor\<close> at
  most once. So the two calls open at most one cursor.
\<close>

theorem second_lookup_is_cache_hit:
  assumes "async_worker_cursor E sid op1 worker s = (Inr c, worker1, s1)"
    and "f_uri_hash (op_format op2) = f_uri_hash (op_format op1)"
    and "f_cfg_hash (op_format op2) = f_cfg_hash (op_format op1)"
  shows "async_worker_cursor E sid op2 worker1 s2 = (Inr c, worker1, s2)
       \<and> cursor_opens (trace s1) \<le> Suc (cursor_opens (trace s))"
proof -
  have "cursorq_find (op_format op1) (cursorqh worker1) = Some c"
    by (rule worker_cursor_found [OF assms(1)])
  then have "cursorq_find (op_format op2) (cursorqh worker1) = Some c"
    using cursorq_find_hashes [OF assms(3) assms(2), of "cursorqh worker1"] by simp
  then show ?thesis
    using worker_cursor_opens [OF assms(1)] by (simp add: async_worker_cursor_def)
qed

text \<open>
  C9 amended, on the small engine: the first call opens cursor 0 for \<open>table:a\<close>
  and caches it; the second call, for another op on the same table, returns cursor 0
  and changes nothing; one cursor was opened.
\<close>

theorem second_lookup_witness:
  "fst (async_worker_cursor table_engine 0 (table_op ''table:a'' WT_AOP_INSERT ''k'' ''v'' 0)
          no_cursors (world_of Map.empty)) = Inr 0
   \<and> async_worker_cursor table_engine 0 (table_op ''table:a'' WT_AOP_SEARCH ''k'' [] 1)
        (fst after_table_a) (snd after_table_a) = (Inr 0, fst after_table_a, snd after_table_a)
   \<and> cursor_opens (trace (snd after_table_a)) = 1"
proof -
  let ?a = "table_op ''table:a'' WT_AOP_INSERT ''k'' ''v'' 0"
  have h: "async_worker_cursor table_engine 0 ?a no_cursors (world_of Map.empty) =
      (Inr 0, fst after_table_a, snd after_table_a)"
    by (simp add: after_table_a_def handler_defs sample_defs)
  have o: "cursor_opens (trace (snd after_table_a)) = 1"
    by (simp add: after_table_a_def cursor_opens_def handler_defs sample_defs)
  from second_lookup_is_cache_hit
    [OF h, of "table_op ''table:a'' WT_AOP_SEARCH ''k'' [] 1" "snd after_table_a"] h o
  show ?thesis
    by (simp add: table_op_def)
qed

text \<open>
  C10: when the transaction has begun and the cursor was obtained, the handler
  returns 0, whatever the executor, the callback and the commit or rollback returned;
  and the worker loop does not look at what the handler returns: from line 271 a
  worker always goes on to the top of its loop.
\<close>

theorem handler_returns_zero:
  "(ext_call E sid Txn_begin s = (0, s0) \<and>
    async_worker_cursor E sid op worker s0 = (Inr cursor, worker1, s1)
      \<longrightarrow> fst (async_worker_op E sid op worker s) = 0)
   \<and> (t_pc (threads c w) = Unlocked_with r
      \<longrightarrow> t_pc (threads (wt_async_worker E w c) w) = Loop_top)"
  by (auto simp: async_worker_op_def wt_async_worker_def worker_unlocked_def goto_def
           split: prod.splits)

text \<open>
  C10 on the small engine: a remove of an absent key returns \<open>WT_NOTFOUND\<close>, the
  callback returns 1, the transaction is rolled back, and the handler returns 0; a
  worker that holds \<open>Op 0\<close> at line 271 is at the top of its loop after its step.
\<close>

theorem handler_returns_zero_witness:
  "fst (async_worker_op table_engine 0 (table_op ''table:a'' WT_AOP_REMOVE ''k'' [] 1)
          no_cursors (world_of Map.empty)) = 0
   \<and> txn_resolutions (trace (snd (snd (snd (async_worker_op table_engine 0
         (table_op ''table:a'' WT_AOP_REMOVE ''k'' [] 1) no_cursors (world_of Map.empty))))))
       = [Txn_rollback]
   \<and> t_pc (threads flush_behind_op 0) = Unlocked_with (Op 0)
   \<and> t_pc (threads (wt_async_worker table_engine 0 flush_behind_op) 0) = Loop_top"
proof -
  let ?E = table_engine and ?w = "world_of Map.empty"
  let ?op = "table_op ''table:a'' WT_AOP_REMOVE ''k'' [] 1"
  let ?s0 = "snd (ext_call ?E 0 Txn_begin ?w)"
  have h1: "ext_call ?E 0 Txn_begin ?w = (0, ?s0)"
    by (simp add: handler_defs sample_defs)
  have h2: "async_worker_cursor ?E 0 ?op no_cursors ?s0 =
      (Inr 0, fst (snd (async_worker_cursor ?E 0 ?op no_cursors ?s0)),
       snd (snd (async_worker_cursor ?E 0 ?op no_cursors ?s0)))"
    by (simp add: handler_defs sample_defs)
  have r: "txn_resolutions (trace (snd (snd (snd (async_worker_op ?E 0 ?op no_cursors ?w)))))
       = [Txn_rollback]"
    by (simp add: handler_defs sample_defs Let_def txn_resolutions_def)
  have p: "t_pc (threads flush_behind_op 0) = Unlocked_with (Op 0)"
    by (simp add: flush_behind_op_def worker_defs Let_def)
  from handler_returns_zero
      [where E = ?E and sid = 0 and s = ?w and ?s0.0 = ?s0 and op = ?op and worker = no_cursors
         and cursor = 0 and ?worker1.0 = "fst (snd (async_worker_cursor ?E 0 ?op no_cursors ?s0))"
         and ?s1.0 = "snd (snd (async_worker_cursor ?E 0 ?op no_cursors ?s0))"
         and c = flush_behind_op and w = 0 and r = "Op 0"]
    h1 h2 r p
  show ?thesis
    by simp
qed

end
